theory Spec2Isabelle
  imports Main
begin

section \<open>Values, requests and responses\<close>

text \<open>
  The repository holds two variants of one Express server: \<^verbatim>\<open>src/index.js\<close> and the
  file \<^verbatim>\<open>src/unnamed/part_000\<close>. Definitions taken from the first are prefixed
  \<open>index_\<close>, those from the second \<open>part0_\<close>; \<open>evolveNFT\<close>, \<open>getTokenURI\<close> and the two
  Pinata helpers are the same in both files and are embedded once.

  A JavaScript value as a request body, a multipart field or a response body can hold
  it. Numbers are JSON numbers; the code only ever tests them for truthiness, so an
  integer stands for them. \<open>JUndefined\<close> is the value of an absent field. A handler is
  given \<^verbatim>\<open>req.body\<close> as such a value (the parsed object, or undefined when nothing parsed
  one and Express leaves it so), the route parameter and \<^verbatim>\<open>req.file\<close>. Output to the
  console is left out.
\<close>

datatype json =
    JUndefined
  | JNull
  | JBool bool
  | JNum int
  | JStr string
  | JArr "json list"
  | JObj "(string \<times> json) list"

text \<open>JavaScript truthiness, as \<^verbatim>\<open>!x\<close> and \<^verbatim>\<open>x ? a : b\<close> and \<^verbatim>\<open>x || d\<close> test it.\<close>

fun truthy :: "json \<Rightarrow> bool" where
  "truthy JUndefined = False"
| "truthy JNull = False"
| "truthy (JBool b) = b"
| "truthy (JNum n) = (n \<noteq> 0)"
| "truthy (JStr s) = (s \<noteq> [])"
| "truthy (JArr _) = True"
| "truthy (JObj _) = True"

text \<open>
  The value of \<^verbatim>\<open>v.k\<close> for a value \<open>v\<close> that is neither undefined nor null: the field of
  an object (the last one when the JSON text repeats the key, as \<^verbatim>\<open>JSON.parse\<close> keeps it),
  and undefined for every other value; the code reads no key that an array, a string, a
  number or a boolean has.
\<close>

fun js_prop :: "string \<Rightarrow> json \<Rightarrow> json" where
  "js_prop k (JObj kvs) = (case map_of (rev kvs) k of Some v \<Rightarrow> v | None \<Rightarrow> JUndefined)"
| "js_prop k _ = JUndefined"

fun nullish :: "json \<Rightarrow> bool" where
  "nullish JUndefined = True"
| "nullish JNull = True"
| "nullish _ = False"

type_synonym bytes = "nat list"

text \<open>A pending transaction (\<^verbatim>\<open>tx\<close>, with \<^verbatim>\<open>tx.hash\<close>), an entry of \<^verbatim>\<open>receipt.logs\<close>
  (\<^verbatim>\<open>log.fragment?.name\<close> is \<open>None\<close> for a log without a fragment; \<^verbatim>\<open>event.args.tokenId\<close>
  is \<open>None\<close> when it is not a value \<^verbatim>\<open>ethers.getBigInt\<close> accepts) and a receipt.\<close>

datatype tx = Tx (tx_hash: string)

record log_entry =
  fragment_name :: "string option"
  args_tokenId :: "int option"

record receipt =
  logs :: "log_entry list"

text \<open>\<^verbatim>\<open>req.file\<close> as multer's memory storage fills it.\<close>

record upload_file =
  buffer :: bytes
  originalname :: string

record response =
  status :: nat
  body :: json

section \<open>The external collaborators\<close>

text \<open>
  Every call that leaves the process is recorded, in order. \<open>SafeMint to uri hash\<close>
  and \<open>CommitEvolution tokenId uri hash\<close> are the two ledger writes.
\<close>

datatype call =
    SafeMint json string string
  | CommitEvolution string string string
  | TxWait tx
  | TokenURI string
  | PinFile bytes string
  | PinJSON json

text \<open>
  What Express answers by itself, without any code of the repository: a request that
  matches no route, and an error that no error middleware takes.
\<close>

datatype express_cause = NoRoute | Unhandled string

text \<open>
  The libraries and services the code calls but the repository does not contain are
  parameters: the two \<^verbatim>\<open>ethers\<close> functions over strings and bytes, \<^verbatim>\<open>JSON.parse\<close>, the
  deployed contract, and Pinata. A service reads and changes a world \<open>'w\<close> of its own;
  \<open>Inl msg\<close> is a rejected promise or a thrown error with \<^verbatim>\<open>err.message = msg\<close>.
  \<open>contract_present\<close> is the truthiness of the module constant \<^verbatim>\<open>contract\<close>, and
  \<open>express_final\<close> the response of Express's own final handler.
\<close>

record 'w env =
  keccak256 :: "bytes \<Rightarrow> string"
  toUtf8Bytes :: "string \<Rightarrow> bytes"
  utf8_error :: "json \<Rightarrow> string"
  bigint_error :: string
  JSON_parse :: "json \<Rightarrow> string + json"
  contract_present :: bool
  contract_safeMint :: "'w \<Rightarrow> json \<Rightarrow> string \<Rightarrow> string \<Rightarrow> (string + tx) \<times> 'w"
  contract_commitEvolution :: "'w \<Rightarrow> string \<Rightarrow> string \<Rightarrow> string \<Rightarrow> (string + tx) \<times> 'w"
  tx_wait :: "'w \<Rightarrow> tx \<Rightarrow> (string + receipt) \<times> 'w"
  contract_tokenURI :: "'w \<Rightarrow> string \<Rightarrow> (string + json) \<times> 'w"
  pinFileToIPFS :: "'w \<Rightarrow> bytes \<Rightarrow> string \<Rightarrow> (string + string) \<times> 'w"
  pinJSONToIPFS :: "'w \<Rightarrow> json \<Rightarrow> (string + string) \<times> 'w"
  express_final :: "express_cause \<Rightarrow> response"

record 'w sys =
  world :: 'w
  calls :: "call list"

type_synonym ('w, 'a) io = "'w sys \<Rightarrow> (string + 'a) \<times> 'w sys"

definition ok :: "'a \<Rightarrow> ('w, 'a) io" where
  "ok v s = (Inr v, s)"

definition throw :: "string \<Rightarrow> ('w, 'a) io" where
  "throw e s = (Inl e, s)"

text \<open>\<^verbatim>\<open>const x = await m; k(x)\<close>: a rejection of \<open>m\<close> skips \<open>k\<close>.\<close>

definition await :: "('w, 'a) io \<Rightarrow> ('a \<Rightarrow> ('w, 'b) io) \<Rightarrow> ('w, 'b) io" where
  "await m k s = (case m s of (Inl e, s') \<Rightarrow> (Inl e, s') | (Inr v, s') \<Rightarrow> k v s')"

text \<open>\<^verbatim>\<open>try { ... res.json(..) } catch (err) { res.status(..).json(..) }\<close>.\<close>

definition try_catch :: "('w, response) io \<Rightarrow> (string \<Rightarrow> response) \<Rightarrow> 'w sys \<Rightarrow> response \<times> 'w sys" where
  "try_catch m h s = (case m s of (Inl e, s') \<Rightarrow> (h e, s') | (Inr r, s') \<Rightarrow> (r, s'))"

text \<open>
  \<^verbatim>\<open>const { k, ... } = req.body\<close>: a TypeError when \<^verbatim>\<open>req.body\<close> is undefined or null (the
  message names the first property of the pattern), else the fields are read with \<open>js_prop\<close>.
\<close>

definition cannot_destructure :: "string \<Rightarrow> json \<Rightarrow> string" where
  "cannot_destructure k v =
     ''Cannot destructure property '' @ [CHR 0x27] @ k @ [CHR 0x27] @ '' of '' @ [CHR 0x27] @ ''req.body'' @
     [CHR 0x27] @ '' as it is '' @ (if v = JNull then ''null'' else ''undefined'') @ ''.''"

definition destructure :: "string \<Rightarrow> json \<Rightarrow> ('w, json) io" where
  "destructure k v = (if nullish v then throw (cannot_destructure k v) else ok v)"

text \<open>One external call: the service answers and changes the world, the call is logged.\<close>

definition perform :: "call \<Rightarrow> ('w \<Rightarrow> (string + 'a) \<times> 'w) \<Rightarrow> ('w, 'a) io" where
  "perform c f s = (case f (world s) of (r, w') \<Rightarrow> (r, \<lparr>world = w', calls = calls s @ [c]\<rparr>))"

definition safeMint :: "'w env \<Rightarrow> json \<Rightarrow> string \<Rightarrow> string \<Rightarrow> ('w, tx) io" where
  "safeMint env to uri h = perform (SafeMint to uri h) (\<lambda>w. contract_safeMint env w to uri h)"

definition commitEvolution :: "'w env \<Rightarrow> string \<Rightarrow> string \<Rightarrow> string \<Rightarrow> ('w, tx) io" where
  "commitEvolution env tokenId uri h =
     perform (CommitEvolution tokenId uri h) (\<lambda>w. contract_commitEvolution env w tokenId uri h)"

definition wait :: "'w env \<Rightarrow> tx \<Rightarrow> ('w, receipt) io" where
  "wait env t = perform (TxWait t) (\<lambda>w. tx_wait env w t)"

definition tokenURI :: "'w env \<Rightarrow> string \<Rightarrow> ('w, json) io" where
  "tokenURI env tokenId = perform (TokenURI tokenId) (\<lambda>w. contract_tokenURI env w tokenId)"

section \<open>Strings of numbers\<close>

definition digit_char :: "nat \<Rightarrow> char" where
  "digit_char d = ''0123456789'' ! d"

function string_of_nat :: "nat \<Rightarrow> string" where
  "string_of_nat n =
     (if n < 10 then [digit_char n] else string_of_nat (n div 10) @ [digit_char (n mod 10)])"
  by pat_completeness auto
termination
  by (relation "measure id") auto

declare string_of_nat.simps [simp del]

text \<open>\<^verbatim>\<open>BigInt.prototype.toString()\<close>: decimal, with a sign for a negative value.\<close>

definition bigint_toString :: "int \<Rightarrow> string" where
  "bigint_toString i = (if i < 0 then CHR ''-'' # string_of_nat (nat (- i)) else string_of_nat (nat i))"

section \<open>Pinata helpers (both files)\<close>

text \<open>\<^verbatim>\<open>uploadImageToPinata\<close> and \<^verbatim>\<open>uploadJSONToPinata\<close>: one POST each, returning
  \<^verbatim>\<open>response.data.IpfsHash\<close>.\<close>

definition uploadImageToPinata :: "'w env \<Rightarrow> bytes \<Rightarrow> string \<Rightarrow> ('w, string) io" where
  "uploadImageToPinata env fileBuffer fileName =
     perform (PinFile fileBuffer fileName) (\<lambda>w. pinFileToIPFS env w fileBuffer fileName)"

definition uploadJSONToPinata :: "'w env \<Rightarrow> json \<Rightarrow> ('w, string) io" where
  "uploadJSONToPinata env jsonData =
     perform (PinJSON jsonData) (\<lambda>w. pinJSONToIPFS env w jsonData)"

section \<open>Blockchain functions\<close>

text \<open>
  The expression \<^verbatim>\<open>ethers.keccak256(ethers.toUtf8Bytes(metadataUri))\<close> that \<^verbatim>\<open>mintNFT\<close> and
  \<^verbatim>\<open>evolveNFT\<close> both start with (the specification's HashBinder). \<^verbatim>\<open>toUtf8Bytes\<close> throws
  on a value that is not a string.
\<close>

definition hashBinder :: "'w env \<Rightarrow> string \<Rightarrow> string" where
  "hashBinder env uri = keccak256 env (toUtf8Bytes env uri)"

definition ethers_hash :: "'w env \<Rightarrow> json \<Rightarrow> ('w, string \<times> string) io" where
  "ethers_hash env metadataUri =
     (case metadataUri of
        JStr uri \<Rightarrow> ok (uri, hashBinder env uri)
      | _ \<Rightarrow> throw (utf8_error env metadataUri))"

text \<open>\<^verbatim>\<open>src/index.js\<close>, lines 55-60.\<close>

definition index_mintNFT :: "'w env \<Rightarrow> json \<Rightarrow> json \<Rightarrow> ('w, string) io" where
  "index_mintNFT env to metadataUri =
     await (ethers_hash env metadataUri) (\<lambda>(uri, hash).
     await (safeMint env to uri hash) (\<lambda>t.
     await (wait env t) (\<lambda>_.
     ok (tx_hash t))))"

text \<open>\<^verbatim>\<open>src/unnamed/part_000\<close>, lines 58-74. \<^verbatim>\<open>receipt.logs.find\<close> takes the first log whose
  fragment is named Transfer.\<close>

definition parse_tokenId :: "'w env \<Rightarrow> receipt \<Rightarrow> ('w, string) io" where
  "parse_tokenId env r =
     (case find (\<lambda>l. fragment_name l = Some ''Transfer'') (logs r) of
        None \<Rightarrow> ok ''unknown''
      | Some event \<Rightarrow>
          (case args_tokenId event of
             None \<Rightarrow> throw (bigint_error env)
           | Some n \<Rightarrow> ok (bigint_toString n)))"

definition part0_mintNFT :: "'w env \<Rightarrow> json \<Rightarrow> json \<Rightarrow> ('w, json) io" where
  "part0_mintNFT env to metadataUri =
     (if \<not> contract_present env then throw ''Contract not initialized properly''
      else
        await (ethers_hash env metadataUri) (\<lambda>(uri, hash).
        await (safeMint env to uri hash) (\<lambda>t.
        await (wait env t) (\<lambda>r.
        await (parse_tokenId env r) (\<lambda>tokenId.
        ok (JObj [(''success'', JBool True), (''txHash'', JStr (tx_hash t)),
                  (''tokenId'', JStr tokenId), (''metadataUri'', metadataUri)]))))))"

text \<open>\<^verbatim>\<open>evolveNFT\<close> and \<^verbatim>\<open>getTokenURI\<close>, the same in both files.\<close>

definition evolveNFT :: "'w env \<Rightarrow> string \<Rightarrow> json \<Rightarrow> ('w, string) io" where
  "evolveNFT env tokenId metadataUri =
     await (ethers_hash env metadataUri) (\<lambda>(uri, hash).
     await (commitEvolution env tokenId uri hash) (\<lambda>t.
     await (wait env t) (\<lambda>_.
     ok (tx_hash t))))"

definition getTokenURI :: "'w env \<Rightarrow> string \<Rightarrow> ('w, json) io" where
  "getTokenURI env tokenId = tokenURI env tokenId"

section \<open>HTTP handlers\<close>

definition json_error :: "string \<Rightarrow> json" where
  "json_error msg = JObj [(''error'', JStr msg)]"

definition json_failure :: "string \<Rightarrow> json" where
  "json_failure msg = JObj [(''success'', JBool False), (''error'', JStr msg)]"

text \<open>\<^verbatim>\<open>app.head("/ping", ...)\<close>: \<^verbatim>\<open>res.sendStatus(200)\<close>, in both files.\<close>

definition head_ping :: "'w sys \<Rightarrow> response \<times> 'w sys" where
  "head_ping s = (\<lparr>status = 200, body = JStr ''OK''\<rparr>, s)"

text \<open>A response of Express's own: no code of the repository runs, nothing is called.\<close>

definition express_answers :: "'w env \<Rightarrow> express_cause \<Rightarrow> 'w sys \<Rightarrow> response \<times> 'w sys" where
  "express_answers env cause s = (express_final env cause, s)"

subsection \<open>\<^verbatim>\<open>src/index.js\<close>\<close>

text \<open>\<^verbatim>\<open>POST /mint\<close>, lines 81-93; \<open>reqBody\<close> is \<^verbatim>\<open>req.body\<close>, destructured inside the \<^verbatim>\<open>try\<close>.\<close>

definition index_post_mint :: "'w env \<Rightarrow> json \<Rightarrow> 'w sys \<Rightarrow> response \<times> 'w sys" where
  "index_post_mint env reqBody =
     try_catch
       (await (destructure ''to'' reqBody) (\<lambda>b.
        if \<not> truthy (js_prop ''to'' b) \<or> \<not> truthy (js_prop ''metadataUri'' b)
        then ok \<lparr>status = 400, body = json_error ''to and metadataUri are required''\<rparr>
        else
          await (index_mintNFT env (js_prop ''to'' b) (js_prop ''metadataUri'' b)) (\<lambda>txHash.
          ok \<lparr>status = 200,
              body = JObj [(''success'', JBool True), (''txHash'', JStr txHash),
                           (''metadataUri'', js_prop ''metadataUri'' b)]\<rparr>)))
       (\<lambda>msg. \<lparr>status = 500, body = json_error msg\<rparr>)"

text \<open>
  \<^verbatim>\<open>POST /evolve/:tokenId\<close>, lines 100-134, behind \<^verbatim>\<open>upload.single("file")\<close>: \<open>reqBody\<close> is
  \<^verbatim>\<open>req.body\<close>, destructured first, and \<open>file\<close> is \<^verbatim>\<open>req.file\<close> (\<open>None\<close> when undefined, and
  then \<^verbatim>\<open>req.file.buffer\<close> throws a TypeError).
\<close>

definition read_of_undefined :: "string \<Rightarrow> string" where
  "read_of_undefined field = ''Cannot read properties of undefined (reading '' @ [CHR 0x27] @ field @ [CHR 0x27] @ '')''"

text \<open>\<^verbatim>\<open>attributes ? JSON.parse(attributes) : dflt\<close>, where \<^verbatim>\<open>JSON.parse\<close> may throw.\<close>

definition attributes_value :: "'w env \<Rightarrow> json \<Rightarrow> json \<Rightarrow> string + json" where
  "attributes_value env attributes dflt =
     (if truthy attributes then JSON_parse env attributes else Inr dflt)"

definition parse_attributes :: "'w env \<Rightarrow> json \<Rightarrow> json \<Rightarrow> ('w, json) io" where
  "parse_attributes env attributes dflt =
     (case attributes_value env attributes dflt of Inl msg \<Rightarrow> throw msg | Inr v \<Rightarrow> ok v)"

text \<open>The object \<^verbatim>\<open>metadata\<close> of the handler.\<close>

definition evolved_metadata :: "string \<Rightarrow> string \<Rightarrow> json \<Rightarrow> json" where
  "evolved_metadata tokenId imageCid attrs =
     JObj [(''name'', JStr (''Evolved NFT #'' @ tokenId)),
           (''description'', JStr ''This NFT has evolved via AI.''),
           (''image'', JStr (''ipfs://'' @ imageCid)),
           (''attributes'', attrs)]"

definition index_post_evolve ::
  "'w env \<Rightarrow> string \<Rightarrow> json \<Rightarrow> upload_file option \<Rightarrow> 'w sys \<Rightarrow> response \<times> 'w sys" where
  "index_post_evolve env tokenId reqBody file =
     try_catch
       (await (destructure ''attributes'' reqBody) (\<lambda>b.
        case file of
          None \<Rightarrow> throw (read_of_undefined ''buffer'')
        | Some f \<Rightarrow>
            await (uploadImageToPinata env (buffer f) (originalname f)) (\<lambda>imageCid.
            await (parse_attributes env (js_prop ''attributes'' b) (JObj [])) (\<lambda>attrs.
            await (uploadJSONToPinata env (evolved_metadata tokenId imageCid attrs)) (\<lambda>metadataCid.
            await (evolveNFT env tokenId (JStr (''ipfs://'' @ metadataCid))) (\<lambda>txHash.
            ok \<lparr>status = 200,
                body = JObj [(''success'', JBool True), (''txHash'', JStr txHash),
                             (''imageCid'', JStr imageCid),
                             (''metadataCid'', JStr metadataCid)]\<rparr>))))))
       (\<lambda>msg. \<lparr>status = 500, body = json_failure msg\<rparr>)"

text \<open>\<^verbatim>\<open>GET /token/:tokenId\<close>, the same in both files.\<close>

definition get_token :: "'w env \<Rightarrow> string \<Rightarrow> 'w sys \<Rightarrow> response \<times> 'w sys" where
  "get_token env tokenId =
     try_catch
       (await (getTokenURI env tokenId) (\<lambda>uri.
        ok \<lparr>status = 200,
            body = JObj [(''success'', JBool True), (''tokenId'', JStr tokenId), (''uri'', uri)]\<rparr>))
       (\<lambda>msg. \<lparr>status = 500, body = json_failure msg\<rparr>)"

subsection \<open>\<^verbatim>\<open>src/unnamed/part_000\<close>\<close>

text \<open>\<^verbatim>\<open>POST /mint\<close>, lines 93-104: the body of the answer is what \<^verbatim>\<open>mintNFT\<close> returned.\<close>

definition part0_post_mint :: "'w env \<Rightarrow> json \<Rightarrow> 'w sys \<Rightarrow> response \<times> 'w sys" where
  "part0_post_mint env reqBody =
     try_catch
       (await (destructure ''to'' reqBody) (\<lambda>b.
        if \<not> truthy (js_prop ''to'' b) \<or> \<not> truthy (js_prop ''metadataUri'' b)
        then ok \<lparr>status = 400, body = json_error ''to and metadataUri are required''\<rparr>
        else
          await (part0_mintNFT env (js_prop ''to'' b) (js_prop ''metadataUri'' b)) (\<lambda>result.
          ok \<lparr>status = 200, body = result\<rparr>)))
       (\<lambda>msg. \<lparr>status = 500, body = json_error msg\<rparr>)"

text \<open>\<^verbatim>\<open>POST /evolve/:tokenId\<close>, lines 108-122.\<close>

definition part0_post_evolve :: "'w env \<Rightarrow> string \<Rightarrow> json \<Rightarrow> 'w sys \<Rightarrow> response \<times> 'w sys" where
  "part0_post_evolve env tokenId reqBody =
     try_catch
       (await (destructure ''metadataUri'' reqBody) (\<lambda>b.
        if \<not> truthy (js_prop ''metadataUri'' b)
        then ok \<lparr>status = 400, body = json_error ''metadataUri is required''\<rparr>
        else
          await (evolveNFT env tokenId (js_prop ''metadataUri'' b)) (\<lambda>txHash.
          ok \<lparr>status = 200,
              body = JObj [(''success'', JBool True), (''txHash'', JStr txHash),
                           (''tokenId'', JStr tokenId),
                           (''metadataUri'', js_prop ''metadataUri'' b)]\<rparr>)))
       (\<lambda>msg. \<lparr>status = 500, body = json_failure msg\<rparr>)"

text \<open>
  \<^verbatim>\<open>POST /upload-image\<close>, lines 125-159, behind \<^verbatim>\<open>upload.single("image")\<close>: \<open>file\<close> is
  \<^verbatim>\<open>req.file\<close>, tested first; \<open>reqBody\<close> is \<^verbatim>\<open>req.body\<close>, destructured after the test.
\<close>

definition js_or :: "json \<Rightarrow> json \<Rightarrow> json" where
  "js_or v dflt = (if truthy v then v else dflt)"

definition no_file_message :: string where
  "no_file_message = ''No file uploaded. Field name must be '' @ [CHR 0x27] @ ''file'' @ [CHR 0x27] @ ''.''"

text \<open>The object \<^verbatim>\<open>metadata\<close> of the handler.\<close>

definition uploaded_metadata :: "json \<Rightarrow> json \<Rightarrow> string \<Rightarrow> json \<Rightarrow> json" where
  "uploaded_metadata name description imageCid attrs =
     JObj [(''name'', js_or name (JStr ''Untitled NFT'')),
           (''description'', js_or description (JStr ''No description provided'')),
           (''image'', JStr (''ipfs://'' @ imageCid)),
           (''attributes'', attrs)]"

definition part0_post_upload_image ::
  "'w env \<Rightarrow> upload_file option \<Rightarrow> json \<Rightarrow> 'w sys \<Rightarrow> response \<times> 'w sys" where
  "part0_post_upload_image env file reqBody =
     try_catch
       (case file of
          None \<Rightarrow>
            ok \<lparr>status = 400, body = json_error no_file_message\<rparr>
        | Some f \<Rightarrow>
            await (destructure ''name'' reqBody) (\<lambda>b.
            await (uploadImageToPinata env (buffer f) (originalname f)) (\<lambda>imageCid.
            await (parse_attributes env (js_prop ''attributes'' b) (JArr [])) (\<lambda>attrs.
            await (uploadJSONToPinata env
                     (uploaded_metadata (js_prop ''name'' b) (js_prop ''description'' b) imageCid attrs))
              (\<lambda>metadataCid.
            ok \<lparr>status = 200,
                body = JObj [(''success'', JBool True), (''imageCid'', JStr imageCid),
                             (''metadataCid'', JStr metadataCid),
                             (''metadataUri'', JStr (''ipfs://'' @ metadataCid)),
                             (''metadata'',
                              uploaded_metadata (js_prop ''name'' b) (js_prop ''description'' b)
                                imageCid attrs)]\<rparr>)))))
       (\<lambda>msg. \<lparr>status = 500, body = json_failure msg\<rparr>)"

text \<open>The error middleware, lines 173-176: an error passed on by \<^verbatim>\<open>express.json()\<close> or multer.\<close>

definition part0_error_middleware :: "string \<Rightarrow> 'w sys \<Rightarrow> response \<times> 'w sys" where
  "part0_error_middleware msg s = (\<lparr>status = 400, body = json_error msg\<rparr>, s)"

section \<open>The two applications\<close>

text \<open>
  The requests a server can get: one for each route the file registers, with what the
  handler reads of it; a request that matches no route, which Express answers itself;
  and a request on which \<^verbatim>\<open>express.json()\<close> or multer raises an error, which
  \<^verbatim>\<open>part_000\<close> hands to its error middleware and \<^verbatim>\<open>src/index.js\<close>, having none, leaves to
  Express.
\<close>

datatype index_request =
    IHeadPing
  | IPostMint json
  | IPostEvolve string json "upload_file option"
  | IGetToken string
  | IUnmatched
  | IFailedMiddleware string

datatype part0_request =
    PHeadPing
  | PPostMint json
  | PPostEvolve string json
  | PPostUploadImage "upload_file option" json
  | PGetToken string
  | PUnmatched
  | PFailedMiddleware string

fun index_app :: "'w env \<Rightarrow> index_request \<Rightarrow> 'w sys \<Rightarrow> response \<times> 'w sys" where
  "index_app env IHeadPing = head_ping"
| "index_app env (IPostMint reqBody) = index_post_mint env reqBody"
| "index_app env (IPostEvolve tokenId reqBody file) = index_post_evolve env tokenId reqBody file"
| "index_app env (IGetToken tokenId) = get_token env tokenId"
| "index_app env IUnmatched = express_answers env NoRoute"
| "index_app env (IFailedMiddleware msg) = express_answers env (Unhandled msg)"

fun part0_app :: "'w env \<Rightarrow> part0_request \<Rightarrow> 'w sys \<Rightarrow> response \<times> 'w sys" where
  "part0_app env PHeadPing = head_ping"
| "part0_app env (PPostMint reqBody) = part0_post_mint env reqBody"
| "part0_app env (PPostEvolve tokenId reqBody) = part0_post_evolve env tokenId reqBody"
| "part0_app env (PPostUploadImage file reqBody) = part0_post_upload_image env file reqBody"
| "part0_app env (PGetToken tokenId) = get_token env tokenId"
| "part0_app env PUnmatched = express_answers env NoRoute"
| "part0_app env (PFailedMiddleware msg) = part0_error_middleware msg"

text \<open>The requests that Express answers without a handler of the repository.\<close>

fun index_by_express :: "index_request \<Rightarrow> bool" where
  "index_by_express IUnmatched = True"
| "index_by_express (IFailedMiddleware _) = True"
| "index_by_express _ = False"

fun part0_by_express :: "part0_request \<Rightarrow> bool" where
  "part0_by_express PUnmatched = True"
| "part0_by_express _ = False"

section \<open>Properties of calls and worlds\<close>

text \<open>A ledger write pairs its reference with the hash of that reference.\<close>

fun bound_call :: "'w env \<Rightarrow> call \<Rightarrow> bool" where
  "bound_call env (SafeMint _ uri h) = (h = hashBinder env uri)"
| "bound_call env (CommitEvolution _ uri h) = (h = hashBinder env uri)"
| "bound_call env _ = True"

fun is_store_call :: "call \<Rightarrow> bool" where
  "is_store_call (PinFile _ _) = True"
| "is_store_call (PinJSON _) = True"
| "is_store_call _ = False"

text \<open>
  Modelled from the spec: the contract is not in the repository. The specification
  says of it that it keeps the reference and the hash it is given and does not
  re-derive the hash. \<open>stored w\<close> are the (reference, hash) pairs the records of the
  ledger hold in world \<open>w\<close>; a ledger is verbatim when a write adds at most the pair
  submitted and no other call adds any.
\<close>

definition verbatim_ledger :: "'w env \<Rightarrow> ('w \<Rightarrow> (string \<times> string) set) \<Rightarrow> bool" where
  "verbatim_ledger env stored =
     ((\<forall>w to uri h. stored (snd (contract_safeMint env w to uri h)) \<subseteq> insert (uri, h) (stored w)) \<and>
      (\<forall>w i uri h. stored (snd (contract_commitEvolution env w i uri h)) \<subseteq> insert (uri, h) (stored w)) \<and>
      (\<forall>w t. stored (snd (tx_wait env w t)) \<subseteq> stored w) \<and>
      (\<forall>w i. stored (snd (contract_tokenURI env w i)) \<subseteq> stored w) \<and>
      (\<forall>w b n. stored (snd (pinFileToIPFS env w b n)) \<subseteq> stored w) \<and>
      (\<forall>w j. stored (snd (pinJSONToIPFS env w j)) \<subseteq> stored w))"

definition ledger_bound :: "'w env \<Rightarrow> ('w \<Rightarrow> (string \<times> string) set) \<Rightarrow> 'w \<Rightarrow> bool" where
  "ledger_bound env stored w = (\<forall>(uri, h) \<in> stored w. h = hashBinder env uri)"

definition anchored :: "'w env \<Rightarrow> ('w \<Rightarrow> (string \<times> string) set) \<Rightarrow> 'w sys \<Rightarrow> bool" where
  "anchored env stored s = (list_all (bound_call env) (calls s) \<and> ledger_bound env stored (world s))"

text \<open>
  The operations of the two servers: a request to either application, or one of the
  three blockchain functions called on its own. \<open>after\<close> is the state an operation
  leaves.
\<close>

datatype operation =
    IndexRequest index_request
  | Part0Request part0_request
  | IndexMint json json
  | Part0Mint json json
  | Evolve string json

fun after :: "'w env \<Rightarrow> operation \<Rightarrow> 'w sys \<Rightarrow> 'w sys" where
  "after env (IndexRequest rq) s = snd (index_app env rq s)"
| "after env (Part0Request rq) s = snd (part0_app env rq s)"
| "after env (IndexMint to metadataUri) s = snd (index_mintNFT env to metadataUri s)"
| "after env (Part0Mint to metadataUri) s = snd (part0_mintNFT env to metadataUri s)"
| "after env (Evolve tokenId metadataUri) s = snd (evolveNFT env tokenId metadataUri s)"

text \<open>The calls an operation adds to the log, and the hashes of the ledger writes among
  a list of calls.\<close>

definition new_calls :: "'w sys \<Rightarrow> 'w sys \<Rightarrow> call list" where
  "new_calls s s' = drop (length (calls s)) (calls s')"

fun written_hashes :: "call list \<Rightarrow> string list" where
  "written_hashes [] = []"
| "written_hashes (SafeMint _ _ h # cs) = h # written_hashes cs"
| "written_hashes (CommitEvolution _ _ h # cs) = h # written_hashes cs"
| "written_hashes (_ # cs) = written_hashes cs"

section \<open>A concrete environment\<close>

text \<open>
  An environment for the examples. Its world is the ledger's records, (id, reference,
  hash) in order of creation; the contract numbers records from 1, emits one Transfer
  event per receipt and rejects an update of an id it does not hold; Pinata always
  answers. The digest is a stand-in that is cheap to evaluate.
\<close>

type_synonym test_world = "(string \<times> string \<times> string) list"

text \<open>The receipt of a mint transaction carries the Transfer event of the record that
  transaction created; the receipt of any other transaction has no log.\<close>

definition test_receipt :: "test_world \<Rightarrow> tx \<Rightarrow> receipt" where
  "test_receipt w t =
     (let k = length (takeWhile (\<lambda>(i, r). ''0xT'' @ i \<noteq> tx_hash t) w)
      in \<lparr>logs = (if k < length w
                   then [\<lparr>fragment_name = Some ''Transfer'', args_tokenId = Some (int k + 1)\<rparr>]
                   else [])\<rparr>)"

definition test_env :: "test_world env" where
  "test_env =
     \<lparr>keccak256 = (\<lambda>bs. ''keccak:'' @ map char_of bs),
      toUtf8Bytes = map of_char,
      utf8_error = (\<lambda>_. ''invalid string value''),
      bigint_error = ''invalid BigNumberish value'',
      JSON_parse = (\<lambda>v. if v = JStr ''[]'' then Inr (JArr []) else Inl ''Unexpected token''),
      contract_present = True,
      contract_safeMint = (\<lambda>w to uri h.
         (Inr (Tx (''0xT'' @ string_of_nat (length w + 1))),
          w @ [(string_of_nat (length w + 1), uri, h)])),
      contract_commitEvolution = (\<lambda>w i uri h.
         if i \<in> set (map fst w)
         then (Inr (Tx (''0xE'' @ i)), map (\<lambda>(j, r). if j = i then (j, uri, h) else (j, r)) w)
         else (Inl ''execution reverted'', w)),
      tx_wait = (\<lambda>w t. (Inr (test_receipt w t), w)),
      contract_tokenURI = (\<lambda>w i.
         (case map_of w i of Some (uri, h) \<Rightarrow> Inr (JStr uri) | None \<Rightarrow> Inl ''nonexistent token'', w)),
      pinFileToIPFS = (\<lambda>w b n. (Inr ''QmImage'', w)),
      pinJSONToIPFS = (\<lambda>w j. (Inr ''QmMeta'', w)),
      express_final = (\<lambda>c. case c of
         NoRoute \<Rightarrow> \<lparr>status = 404, body = JStr ''Not Found''\<rparr>
       | Unhandled msg \<Rightarrow> \<lparr>status = 500, body = JStr msg\<rparr>)\<rparr>"

definition test_stored :: "test_world \<Rightarrow> (string \<times> string) set" where
  "test_stored w = set (map snd w)"

text \<open>The empty ledger, nothing called yet.\<close>

definition sys0 :: "test_world sys" where
  "sys0 = \<lparr>world = [], calls = []\<rparr>"

text \<open>Request bodies: a mint, an update, a mint whose \<open>metadataUri\<close> is a number, and
  the fields of a multipart request whose \<open>attributes\<close> is not JSON text. Then a world
  in which record 1 exists, and an uploaded file.\<close>

definition mint_body :: json where
  "mint_body = JObj [(''to'', JStr ''0xABC''), (''metadataUri'', JStr ''ipfs://Qm123'')]"

definition evolve_body :: json where
  "evolve_body = JObj [(''metadataUri'', JStr ''ipfs://Qm999'')]"

definition numeric_body :: json where
  "numeric_body = JObj [(''to'', JStr ''0xABC''), (''metadataUri'', JNum 123)]"

definition bad_attributes :: json where
  "bad_attributes = JObj [(''name'', JStr ''Face''), (''attributes'', JStr ''{oops'')]"

definition sys1 :: "test_world sys" where
  "sys1 = \<lparr>world = [(''1'', ''ipfs://Qm123'', hashBinder test_env ''ipfs://Qm123'')], calls = []\<rparr>"

definition face_png :: upload_file where
  "face_png = \<lparr>buffer = [137, 80, 78, 71], originalname = ''face.png''\<rparr>"

text \<open>The same contract with an adapter fault: it records a hash other than the one
  submitted.\<close>

definition faulty_env :: "test_world env" where
  "faulty_env =
     test_env\<lparr>contract_safeMint :=
       (\<lambda>w to uri h.
          (Inr (Tx (''0xT'' @ string_of_nat (length w + 1))),
           w @ [(string_of_nat (length w + 1), uri, ''0xBAD'')]))\<rparr>"

text \<open>The same contract behind an ABI that does not know the Transfer event: the log of
  the receipt has no fragment.\<close>

definition silent_env :: "test_world env" where
  "silent_env =
     test_env\<lparr>tx_wait := (\<lambda>w t. (Inr \<lparr>logs = [\<lparr>fragment_name = None, args_tokenId = None\<rparr>]\<rparr>, w))\<rparr>"

section \<open>Requests in flight together\<close>

text \<open>
  A \<^verbatim>\<open>POST /mint\<close> handler is an async function: it runs to its first \<^verbatim>\<open>await\<close>, and is
  resumed when the awaited promise settles; other handlers run in between. An activation is
  one request's handler at such a point: arrived and not yet run, waiting for
  \<^verbatim>\<open>contract.safeMint(to, uri, hash)\<close>, waiting for \<^verbatim>\<open>tx.wait()\<close>, or answered. The server
  itself holds no state: neither file has a variable that a handler writes.
\<close>

datatype variant = Index | Part0

datatype activation =
    Arrived json
  | AwaitSafeMint json string string
  | AwaitWait tx string
  | Responded response

text \<open>One resumption of an activation: the code between two \<^verbatim>\<open>await\<close>s of the handler and of
  \<^verbatim>\<open>mintNFT\<close>, with the external call that ends the wait.\<close>

fun mint_step :: "variant \<Rightarrow> 'w env \<Rightarrow> activation \<Rightarrow> 'w sys \<Rightarrow> activation \<times> 'w sys" where
  "mint_step v env (Arrived reqBody) s =
     (if nullish reqBody
      then (Responded \<lparr>status = 500, body = json_error (cannot_destructure ''to'' reqBody)\<rparr>, s)
      else if \<not> truthy (js_prop ''to'' reqBody) \<or> \<not> truthy (js_prop ''metadataUri'' reqBody)
      then (Responded \<lparr>status = 400, body = json_error ''to and metadataUri are required''\<rparr>, s)
      else if v = Part0 \<and> \<not> contract_present env
      then (Responded \<lparr>status = 500, body = json_error ''Contract not initialized properly''\<rparr>, s)
      else (case js_prop ''metadataUri'' reqBody of
              JStr uri \<Rightarrow> (AwaitSafeMint (js_prop ''to'' reqBody) uri (hashBinder env uri), s)
            | u \<Rightarrow> (Responded \<lparr>status = 500, body = json_error (utf8_error env u)\<rparr>, s)))"
| "mint_step v env (AwaitSafeMint to uri hash) s =
     (case safeMint env to uri hash s of
        (Inl msg, s') \<Rightarrow> (Responded \<lparr>status = 500, body = json_error msg\<rparr>, s')
      | (Inr t, s') \<Rightarrow> (AwaitWait t uri, s'))"
| "mint_step v env (AwaitWait t uri) s =
     (case wait env t s of
        (Inl msg, s') \<Rightarrow> (Responded \<lparr>status = 500, body = json_error msg\<rparr>, s')
      | (Inr r, s') \<Rightarrow>
          (case v of
             Index \<Rightarrow>
               (Responded \<lparr>status = 200,
                           body = JObj [(''success'', JBool True), (''txHash'', JStr (tx_hash t)),
                                        (''metadataUri'', JStr uri)]\<rparr>, s')
           | Part0 \<Rightarrow>
               (case parse_tokenId env r s' of
                  (Inl msg, s'') \<Rightarrow> (Responded \<lparr>status = 500, body = json_error msg\<rparr>, s'')
                | (Inr tokenId, s'') \<Rightarrow>
                    (Responded \<lparr>status = 200,
                                body = JObj [(''success'', JBool True), (''txHash'', JStr (tx_hash t)),
                                             (''tokenId'', JStr tokenId), (''metadataUri'', JStr uri)]\<rparr>, s''))))"
| "mint_step v env (Responded r) s = (Responded r, s)"

text \<open>The event loop resumes the activations in some order: a schedule names, step by
  step, the one that runs next.\<close>

definition resume :: "variant \<Rightarrow> 'w env \<Rightarrow> nat \<Rightarrow> activation list \<times> 'w sys \<Rightarrow> activation list \<times> 'w sys" where
  "resume v env i st =
     (case st of (ts, s) \<Rightarrow>
        if i < length ts
        then (case mint_step v env (ts ! i) s of (t', s') \<Rightarrow> (ts[i := t'], s'))
        else (ts, s))"

definition run :: "variant \<Rightarrow> 'w env \<Rightarrow> nat list \<Rightarrow> activation list \<times> 'w sys \<Rightarrow> activation list \<times> 'w sys" where
  "run v env schedule st = fold (resume v env) schedule st"

text \<open>
  A request body that leads to a ledger submission: \<open>to\<close> is truthy, \<open>metadataUri\<close> is a
  non-empty string (a truthy value of another type passes the handler's test and then
  makes \<^verbatim>\<open>ethers.toUtf8Bytes\<close> throw), and, in \<^verbatim>\<open>part_000\<close>, \<^verbatim>\<open>contract\<close> is truthy.
\<close>

definition mint_submits :: "variant \<Rightarrow> 'w env \<Rightarrow> json \<Rightarrow> bool" where
  "mint_submits v env reqBody =
     (truthy (js_prop ''to'' reqBody) \<and>
      (case js_prop ''metadataUri'' reqBody of JStr uri \<Rightarrow> uri \<noteq> [] | _ \<Rightarrow> False) \<and>
      (v = Index \<or> contract_present env))"

text \<open>The submissions an activation has still to make, and those a log holds.\<close>

fun owed :: "variant \<Rightarrow> 'w env \<Rightarrow> activation \<Rightarrow> nat" where
  "owed v env (Arrived reqBody) = (if mint_submits v env reqBody then 1 else 0)"
| "owed v env (AwaitSafeMint _ _ _) = 1"
| "owed v env (AwaitWait _ _) = 0"
| "owed v env (Responded _) = 0"

fun is_safeMint :: "call \<Rightarrow> bool" where
  "is_safeMint (SafeMint _ _ _) = True"
| "is_safeMint _ = False"

definition submissions :: "call list \<Rightarrow> nat" where
  "submissions cs = length (filter is_safeMint cs)"

fun answered :: "activation \<Rightarrow> bool" where
  "answered (Responded _) = True"
| "answered _ = False"

definition pending :: "variant \<Rightarrow> 'w env \<Rightarrow> activation list \<Rightarrow> nat" where
  "pending v env ts = sum_list (map (owed v env) ts)"

text \<open>The \<^verbatim>\<open>POST /mint\<close> handler of a file.\<close>

definition post_mint :: "variant \<Rightarrow> 'w env \<Rightarrow> json \<Rightarrow> 'w sys \<Rightarrow> response \<times> 'w sys" where
  "post_mint v env = (case v of Index \<Rightarrow> index_post_mint env | Part0 \<Rightarrow> part0_post_mint env)"

section \<open>Failure bodies\<close>

text \<open>The message of a failure body, in either of the two shapes the handlers send.\<close>

fun error_message :: "json \<Rightarrow> string option" where
  "error_message (JObj [(k, JStr msg)]) = (if k = ''error'' then Some msg else None)"
| "error_message (JObj [(k1, JBool b), (k2, JStr msg)]) =
     (if k1 = ''success'' \<and> \<not> b \<and> k2 = ''error'' then Some msg else None)"
| "error_message _ = None"

text \<open>The two shapes apart: \<^verbatim>\<open>{error: msg}\<close> and \<^verbatim>\<open>{success: false, error: msg}\<close>.\<close>

fun is_error_body :: "json \<Rightarrow> bool" where
  "is_error_body (JObj [(k, JStr msg)]) = (k = ''error'')"
| "is_error_body _ = False"

fun is_failure_body :: "json \<Rightarrow> bool" where
  "is_failure_body (JObj [(k1, JBool b), (k2, JStr msg)]) = (k1 = ''success'' \<and> \<not> b \<and> k2 = ''error'')"
| "is_failure_body _ = False"

text \<open>
  What the handlers send: 200, or 400 with \<^verbatim>\<open>{error: msg}\<close>, or 500 with
  \<^verbatim>\<open>{error: msg}\<close> on \<^verbatim>\<open>/mint\<close> and with \<^verbatim>\<open>{success: false, error: msg}\<close> on the other routes.
\<close>

definition failure_shape :: "bool \<Rightarrow> response \<Rightarrow> bool" where
  "failure_shape mint r =
     (status r = 200 \<or>
      status r = 400 \<and> is_error_body (body r) \<or>
      status r = 500 \<and> (if mint then is_error_body (body r) else is_failure_body (body r)))"

fun index_is_mint :: "index_request \<Rightarrow> bool" where
  "index_is_mint (IPostMint _) = True"
| "index_is_mint _ = False"

fun part0_is_mint :: "part0_request \<Rightarrow> bool" where
  "part0_is_mint (PPostMint _) = True"
| "part0_is_mint _ = False"

section \<open>Receipts\<close>

text \<open>A receipt \<^verbatim>\<open>mintNFT\<close> of \<^verbatim>\<open>part_000\<close> can turn into a result: it has no Transfer log,
  or its first Transfer log has a \<^verbatim>\<open>tokenId\<close> that \<^verbatim>\<open>ethers.getBigInt\<close> accepts.\<close>

definition usable_receipt :: "receipt \<Rightarrow> bool" where
  "usable_receipt r =
     (case find (\<lambda>l. fragment_name l = Some ''Transfer'') (logs r) of
        None \<Rightarrow> True
      | Some event \<Rightarrow> args_tokenId event \<noteq> None)"

section \<open>The await combinators and what an operation keeps\<close>

definition keeps :: "('w sys \<Rightarrow> bool) \<Rightarrow> ('w sys \<Rightarrow> 'r \<times> 'w sys) \<Rightarrow> bool" where
  "keeps P m = (\<forall>s. P s \<longrightarrow> P (snd (m s)))"

text \<open>Every response a handler body returns (rather than throws) satisfies \<open>Q\<close>.\<close>

definition responds :: "(response \<Rightarrow> bool) \<Rightarrow> ('w, response) io \<Rightarrow> bool" where
  "responds Q m = (\<forall>s. case fst (m s) of Inl e \<Rightarrow> True | Inr r \<Rightarrow> Q r)"

section \<open>Basic facts\<close>

lemma await_ok: "await (ok v) k = k v"
  by (rule ext) (simp add: await_def ok_def)

lemma await_throw: "await (throw e) k = throw e"
  by (rule ext) (simp add: await_def throw_def)

lemma keeps_ok: "keeps P (ok v)"
  by (simp add: keeps_def ok_def)

lemma keeps_throw: "keeps P (throw e)"
  by (simp add: keeps_def throw_def)

lemma keeps_await: "keeps P m \<Longrightarrow> (\<And>v. keeps P (k v)) \<Longrightarrow> keeps P (await m k)"
  by (auto simp: keeps_def await_def split: prod.splits sum.splits)

lemma keeps_try_catch: "keeps P m \<Longrightarrow> keeps P (try_catch m h)"
  by (auto simp: keeps_def try_catch_def split: prod.splits sum.splits)

lemma keeps_perform:
  assumes "\<And>s. P s \<Longrightarrow> P \<lparr>world = snd (f (world s)), calls = calls s @ [c]\<rparr>"
  shows "keeps P (perform c f)"
  unfolding keeps_def perform_def
proof (intro allI impI)
  fix s
  assume "P s"
  from assms [OF this] show "P (snd (case f (world s) of (r, w') \<Rightarrow> (r, \<lparr>world = w', calls = calls s @ [c]\<rparr>)))"
    by (cases "f (world s)") simp
qed

lemma anchored_read:
  assumes "anchored env stored s" and "bound_call env c" and "stored w' \<subseteq> stored (world s)"
  shows "anchored env stored \<lparr>world = w', calls = calls s @ [c]\<rparr>"
  using assms by (auto simp: anchored_def ledger_bound_def)

lemma anchored_write:
  assumes "anchored env stored s" and "bound_call env c"
    and "stored w' \<subseteq> insert (uri, hashBinder env uri) (stored (world s))"
  shows "anchored env stored \<lparr>world = w', calls = calls s @ [c]\<rparr>"
  using assms by (auto simp: anchored_def ledger_bound_def)

lemma keeps_safeMint:
  "verbatim_ledger env stored \<Longrightarrow> keeps (anchored env stored) (safeMint env to uri (hashBinder env uri))"
  unfolding safeMint_def
  by (rule keeps_perform, rule anchored_write [where uri = uri]) (simp_all add: verbatim_ledger_def)

lemma keeps_commitEvolution:
  "verbatim_ledger env stored \<Longrightarrow> keeps (anchored env stored) (commitEvolution env i uri (hashBinder env uri))"
  unfolding commitEvolution_def
  by (rule keeps_perform, rule anchored_write [where uri = uri]) (simp_all add: verbatim_ledger_def)

lemma keeps_wait: "verbatim_ledger env stored \<Longrightarrow> keeps (anchored env stored) (wait env t)"
  unfolding wait_def
  by (rule keeps_perform, rule anchored_read) (auto simp: verbatim_ledger_def)

lemma keeps_tokenURI: "verbatim_ledger env stored \<Longrightarrow> keeps (anchored env stored) (tokenURI env i)"
  unfolding tokenURI_def
  by (rule keeps_perform, rule anchored_read) (auto simp: verbatim_ledger_def)

lemma keeps_uploadImage:
  "verbatim_ledger env stored \<Longrightarrow> keeps (anchored env stored) (uploadImageToPinata env b n)"
  unfolding uploadImageToPinata_def
  by (rule keeps_perform, rule anchored_read) (auto simp: verbatim_ledger_def)

lemma keeps_uploadJSON:
  "verbatim_ledger env stored \<Longrightarrow> keeps (anchored env stored) (uploadJSONToPinata env j)"
  unfolding uploadJSONToPinata_def
  by (rule keeps_perform, rule anchored_read) (auto simp: verbatim_ledger_def)

lemma keeps_destructure: "keeps P (destructure k v)"
  unfolding destructure_def by (auto intro: keeps_ok keeps_throw)

lemma keeps_express_answers: "keeps P (express_answers env cause)"
  by (simp add: keeps_def express_answers_def)

lemma keeps_parse_tokenId: "keeps P (parse_tokenId env r)"
  unfolding parse_tokenId_def by (auto split: option.splits intro: keeps_ok keeps_throw)

lemma keeps_parse_attributes: "keeps P (parse_attributes env a d)"
  unfolding parse_attributes_def by (auto split: sum.splits intro: keeps_ok keeps_throw)

lemmas keeps_intros = keeps_await keeps_ok keeps_throw keeps_wait keeps_safeMint keeps_commitEvolution
  keeps_tokenURI keeps_uploadImage keeps_uploadJSON keeps_parse_tokenId keeps_parse_attributes keeps_try_catch
  keeps_destructure

lemma keeps_index_mintNFT:
  "verbatim_ledger env stored \<Longrightarrow> keeps (anchored env stored) (index_mintNFT env to metadataUri)"
  unfolding index_mintNFT_def ethers_hash_def
  by (cases metadataUri) (auto simp: await_ok await_throw intro!: keeps_intros)

lemma keeps_part0_mintNFT:
  "verbatim_ledger env stored \<Longrightarrow> keeps (anchored env stored) (part0_mintNFT env to metadataUri)"
  unfolding part0_mintNFT_def ethers_hash_def
  by (cases metadataUri) (auto simp: await_ok await_throw intro!: keeps_intros)

lemma keeps_evolveNFT:
  "verbatim_ledger env stored \<Longrightarrow> keeps (anchored env stored) (evolveNFT env i metadataUri)"
  unfolding evolveNFT_def ethers_hash_def
  by (cases metadataUri) (auto simp: await_ok await_throw intro!: keeps_intros)

lemma keeps_head_ping: "keeps P head_ping"
  by (simp add: keeps_def head_ping_def)

lemma keeps_error_middleware: "keeps P (part0_error_middleware msg)"
  by (simp add: keeps_def part0_error_middleware_def)

lemma keeps_index_post_mint:
  "verbatim_ledger env stored \<Longrightarrow> keeps (anchored env stored) (index_post_mint env b)"
  unfolding index_post_mint_def by (auto intro!: keeps_intros keeps_index_mintNFT)

lemma keeps_part0_post_mint:
  "verbatim_ledger env stored \<Longrightarrow> keeps (anchored env stored) (part0_post_mint env b)"
  unfolding part0_post_mint_def by (auto intro!: keeps_intros keeps_part0_mintNFT)

lemma keeps_index_post_evolve:
  "verbatim_ledger env stored \<Longrightarrow> keeps (anchored env stored) (index_post_evolve env i b f)"
  unfolding index_post_evolve_def by (auto split: option.splits intro!: keeps_intros keeps_evolveNFT)

lemma keeps_part0_post_evolve:
  "verbatim_ledger env stored \<Longrightarrow> keeps (anchored env stored) (part0_post_evolve env i b)"
  unfolding part0_post_evolve_def by (auto intro!: keeps_intros keeps_evolveNFT)

lemma keeps_part0_post_upload_image:
  "verbatim_ledger env stored \<Longrightarrow> keeps (anchored env stored) (part0_post_upload_image env f b)"
  unfolding part0_post_upload_image_def Let_def by (auto split: option.splits intro!: keeps_intros)

lemma keeps_get_token:
  "verbatim_ledger env stored \<Longrightarrow> keeps (anchored env stored) (get_token env i)"
  unfolding get_token_def getTokenURI_def by (auto intro!: keeps_intros)

lemma keeps_index_app:
  "verbatim_ledger env stored \<Longrightarrow> keeps (anchored env stored) (index_app env rq)"
  by (cases rq)
     (simp_all add: keeps_head_ping keeps_index_post_mint keeps_index_post_evolve keeps_get_token
        keeps_express_answers)

lemma keeps_part0_app:
  "verbatim_ledger env stored \<Longrightarrow> keeps (anchored env stored) (part0_app env rq)"
  by (cases rq) (simp_all add: keeps_head_ping keeps_part0_post_mint keeps_part0_post_evolve keeps_get_token
      keeps_part0_post_upload_image keeps_error_middleware keeps_express_answers)

lemma verbatim_test_env: "verbatim_ledger test_env test_stored"
  by (auto simp: verbatim_ledger_def test_env_def test_stored_def split: if_splits)

lemma verbatim_nothing: "verbatim_ledger env (\<lambda>_. {})"
  by (simp add: verbatim_ledger_def)

lemma keeps_after:
  assumes "verbatim_ledger env stored" and "anchored env stored s"
  shows "anchored env stored (after env opn s)"
proof (cases opn)
  case (IndexRequest rq)
  with keeps_index_app [OF assms(1), of rq] assms(2) show ?thesis by (simp add: keeps_def)
next
  case (Part0Request rq)
  with keeps_part0_app [OF assms(1), of rq] assms(2) show ?thesis by (simp add: keeps_def)
next
  case (IndexMint to u)
  with keeps_index_mintNFT [OF assms(1), of to u] assms(2) show ?thesis by (simp add: keeps_def)
next
  case (Part0Mint to u)
  with keeps_part0_mintNFT [OF assms(1), of to u] assms(2) show ?thesis by (simp add: keeps_def)
next
  case (Evolve i u)
  with keeps_evolveNFT [OF assms(1), of i u] assms(2) show ?thesis by (simp add: keeps_def)
qed

lemmas run_defs = await_def ok_def throw_def try_catch_def perform_def safeMint_def commitEvolution_def
  wait_def tokenURI_def uploadImageToPinata_def uploadJSONToPinata_def ethers_hash_def parse_tokenId_def
  parse_attributes_def getTokenURI_def destructure_def

section \<open>Evaluating the concrete environments\<close>

lemma test_env_simps:
  "contract_present test_env"
  "utf8_error test_env v = ''invalid string value''"
  "bigint_error test_env = ''invalid BigNumberish value''"
  "JSON_parse test_env v = (if v = JStr ''[]'' then Inr (JArr []) else Inl ''Unexpected token'')"
  "contract_safeMint test_env w to uri h =
     (Inr (Tx (''0xT'' @ string_of_nat (length w + 1))), w @ [(string_of_nat (length w + 1), uri, h)])"
  "contract_commitEvolution test_env w i uri h =
     (if i \<in> set (map fst w)
      then (Inr (Tx (''0xE'' @ i)), map (\<lambda>(j, r). if j = i then (j, uri, h) else (j, r)) w)
      else (Inl ''execution reverted'', w))"
  "tx_wait test_env w t = (Inr (test_receipt w t), w)"
  "contract_tokenURI test_env w i =
     (case map_of w i of Some (uri, h) \<Rightarrow> Inr (JStr uri) | None \<Rightarrow> Inl ''nonexistent token'', w)"
  "pinFileToIPFS test_env w b n = (Inr ''QmImage'', w)"
  "pinJSONToIPFS test_env w j = (Inr ''QmMeta'', w)"
  "express_final test_env NoRoute = \<lparr>status = 404, body = JStr ''Not Found''\<rparr>"
  "express_final test_env (Unhandled msg) = \<lparr>status = 500, body = JStr msg\<rparr>"
  by (simp_all add: test_env_def)

lemma faulty_env_simps:
  "contract_present faulty_env"
  "hashBinder faulty_env uri = hashBinder test_env uri"
  "contract_safeMint faulty_env w to uri h =
     (Inr (Tx (''0xT'' @ string_of_nat (length w + 1))), w @ [(string_of_nat (length w + 1), uri, ''0xBAD'')])"
  "tx_wait faulty_env w t = (Inr (test_receipt w t), w)"
  by (simp_all add: faulty_env_def test_env_def hashBinder_def)

lemma silent_env_simps:
  "contract_present silent_env"
  "hashBinder silent_env uri = hashBinder test_env uri"
  "contract_safeMint silent_env w to uri h =
     (Inr (Tx (''0xT'' @ string_of_nat (length w + 1))), w @ [(string_of_nat (length w + 1), uri, h)])"
  "tx_wait silent_env w t = (Inr \<lparr>logs = [\<lparr>fragment_name = None, args_tokenId = None\<rparr>]\<rparr>, w)"
  by (simp_all add: silent_env_def test_env_def hashBinder_def)

lemma string_of_nat_digits:
  "string_of_nat 0 = ''0''" "string_of_nat 1 = ''1''" "string_of_nat 2 = ''2''" "string_of_nat 3 = ''3''"
  "string_of_nat (Suc 0) = ''1''" "string_of_nat (Suc (Suc 0)) = ''2''"
  by (simp_all add: string_of_nat.simps digit_char_def)

lemmas eval_simps = test_env_simps string_of_nat_digits test_receipt_def Let_def sys0_def bigint_toString_def

section \<open>What the three blockchain functions do\<close>

lemma index_mintNFT_run:
  "index_mintNFT env to (JStr uri) s =
     (case contract_safeMint env (world s) to uri (hashBinder env uri) of
        (Inl e, w1) \<Rightarrow> (Inl e, \<lparr>world = w1, calls = calls s @ [SafeMint to uri (hashBinder env uri)]\<rparr>)
      | (Inr t, w1) \<Rightarrow>
          (case tx_wait env w1 t of
             (Inl e, w2) \<Rightarrow> (Inl e, \<lparr>world = w2, calls = calls s @ [SafeMint to uri (hashBinder env uri), TxWait t]\<rparr>)
           | (Inr r, w2) \<Rightarrow> (Inr (tx_hash t), \<lparr>world = w2, calls = calls s @ [SafeMint to uri (hashBinder env uri), TxWait t]\<rparr>)))"
  by (simp add: index_mintNFT_def run_defs split: prod.splits sum.splits)

lemma evolveNFT_run:
  "evolveNFT env i (JStr uri) s =
     (case contract_commitEvolution env (world s) i uri (hashBinder env uri) of
        (Inl e, w1) \<Rightarrow> (Inl e, \<lparr>world = w1, calls = calls s @ [CommitEvolution i uri (hashBinder env uri)]\<rparr>)
      | (Inr t, w1) \<Rightarrow>
          (case tx_wait env w1 t of
             (Inl e, w2) \<Rightarrow> (Inl e, \<lparr>world = w2, calls = calls s @ [CommitEvolution i uri (hashBinder env uri), TxWait t]\<rparr>)
           | (Inr r, w2) \<Rightarrow> (Inr (tx_hash t), \<lparr>world = w2, calls = calls s @ [CommitEvolution i uri (hashBinder env uri), TxWait t]\<rparr>)))"
  by (simp add: evolveNFT_def run_defs split: prod.splits sum.splits)

lemma part0_mintNFT_run:
  "contract_present env \<Longrightarrow> part0_mintNFT env to (JStr uri) s =
     (case contract_safeMint env (world s) to uri (hashBinder env uri) of
        (Inl e, w1) \<Rightarrow> (Inl e, \<lparr>world = w1, calls = calls s @ [SafeMint to uri (hashBinder env uri)]\<rparr>)
      | (Inr t, w1) \<Rightarrow>
          (case tx_wait env w1 t of
             (Inl e, w2) \<Rightarrow> (Inl e, \<lparr>world = w2, calls = calls s @ [SafeMint to uri (hashBinder env uri), TxWait t]\<rparr>)
           | (Inr r, w2) \<Rightarrow>
               (case find (\<lambda>l. fragment_name l = Some ''Transfer'') (logs r) of
                  None \<Rightarrow> Inr (JObj [(''success'', JBool True), (''txHash'', JStr (tx_hash t)),
                                     (''tokenId'', JStr ''unknown''), (''metadataUri'', JStr uri)])
                | Some event \<Rightarrow>
                    (case args_tokenId event of
                       None \<Rightarrow> Inl (bigint_error env)
                     | Some n \<Rightarrow> Inr (JObj [(''success'', JBool True), (''txHash'', JStr (tx_hash t)),
                                     (''tokenId'', JStr (bigint_toString n)), (''metadataUri'', JStr uri)])),
                \<lparr>world = w2, calls = calls s @ [SafeMint to uri (hashBinder env uri), TxWait t]\<rparr>)))"
  by (simp add: part0_mintNFT_def run_defs split: prod.splits sum.splits option.splits)

lemma part0_mintNFT_absent:
  "\<not> contract_present env \<Longrightarrow> part0_mintNFT env to u s = (Inl ''Contract not initialized properly'', s)"
  by (simp add: part0_mintNFT_def throw_def)

section \<open>The hash written with a reference\<close>

text \<open>
  Claim C1. Every ledger write that any operation makes (a request to either
  application, or \<open>mintNFT\<close> or \<open>evolveNFT\<close> called directly) pairs its reference with
  \<open>hashBinder\<close> of that same reference: if the writes logged so far are so bound, the
  writes logged after the operation are too, whatever the contract does. And on a
  ledger that keeps what it is given, if every stored record holds the hash of its
  reference before the operation, every stored record does after it.
\<close>

theorem writes_pair_reference_with_its_hash:
  "(list_all (bound_call env) (calls s) \<longrightarrow> list_all (bound_call env) (calls (after env opn s))) \<and>
   (verbatim_ledger env stored \<and> anchored env stored s \<longrightarrow> anchored env stored (after env opn s))"
proof (intro conjI impI)
  assume "list_all (bound_call env) (calls s)"
  then have "anchored env (\<lambda>_. {}) s"
    by (simp add: anchored_def ledger_bound_def)
  with verbatim_nothing have "anchored env (\<lambda>_. {}) (after env opn s)"
    by (rule keeps_after)
  then show "list_all (bound_call env) (calls (after env opn s))"
    by (simp add: anchored_def)
next
  assume "verbatim_ledger env stored \<and> anchored env stored s"
  then show "anchored env stored (after env opn s)"
    by (simp add: keeps_after)
qed

theorem writes_pair_reference_with_its_hash_witness:
  "calls (after test_env (Part0Request (PPostMint mint_body)) sys0) =
     [SafeMint (JStr ''0xABC'') ''ipfs://Qm123'' (hashBinder test_env ''ipfs://Qm123''), TxWait (Tx ''0xT1'')] \<and>
   list_all (bound_call test_env)
     (calls (after test_env (Part0Request (PPostMint mint_body)) sys0)) \<and>
   anchored test_env test_stored
     (after test_env (Part0Request (PPostMint mint_body)) sys0)"
proof -
  have start: "anchored test_env test_stored sys0"
    by (simp add: anchored_def ledger_bound_def test_stored_def sys0_def)
  have log: "calls (after test_env (Part0Request (PPostMint mint_body)) sys0) =
     [SafeMint (JStr ''0xABC'') ''ipfs://Qm123'' (hashBinder test_env ''ipfs://Qm123''), TxWait (Tx ''0xT1'')]"
    by (simp add: part0_post_mint_def part0_mintNFT_def run_defs eval_simps mint_body_def)
  from writes_pair_reference_with_its_hash
    [of test_env sys0 "Part0Request (PPostMint mint_body)" test_stored]
    start verbatim_test_env
  have "list_all (bound_call test_env)
          (calls (after test_env (Part0Request (PPostMint mint_body)) sys0)) \<and>
        anchored test_env test_stored
          (after test_env (Part0Request (PPostMint mint_body)) sys0)"
    by (simp add: sys0_def)
  with log show ?thesis by blast
qed

section \<open>The hash is a function of the reference\<close>

text \<open>
  What the code contributes to the hash: \<open>mintNFT\<close> and \<open>evolveNFT\<close> give the two library
  functions the reference and nothing else. Whatever the state of the world, the owner
  or the record identifier, a call on reference \<open>uri\<close> writes exactly one hash,
  \<open>keccak256 env (toUtf8Bytes env uri)\<close>. (\<open>mintNFT\<close> of \<^verbatim>\<open>part_000\<close> writes nothing when
  its guard on \<^verbatim>\<open>contract\<close> fires.) That the digest has a fixed width, that the bytes are
  the UTF-8 encoding, and that neither depends on chance or locale are properties of
  \<^verbatim>\<open>ethers\<close>, which the repository does not contain: here the two functions are
  parameters, and a parameter of this kind is a function by construction.
\<close>

lemma hash_is_a_function_of_the_reference:
  "written_hashes (new_calls s (after env (IndexMint to (JStr uri)) s)) =
     [keccak256 env (toUtf8Bytes env uri)] \<and>
   written_hashes (new_calls s (after env (Evolve i (JStr uri)) s)) =
     [keccak256 env (toUtf8Bytes env uri)] \<and>
   written_hashes (new_calls s (after env (Part0Mint to (JStr uri)) s)) =
     (if contract_present env then [keccak256 env (toUtf8Bytes env uri)] else []) \<and>
   written_hashes (new_calls s (after env (IndexMint to (JStr uri)) s)) =
     written_hashes (new_calls s' (after env (IndexMint to' (JStr uri)) s')) \<and>
   written_hashes (new_calls s (after env (Part0Mint to (JStr uri)) s)) =
     written_hashes (new_calls s' (after env (Part0Mint to' (JStr uri)) s')) \<and>
   written_hashes (new_calls s (after env (Evolve i (JStr uri)) s)) =
     written_hashes (new_calls s' (after env (Evolve i' (JStr uri)) s'))"
proof -
  have a: "written_hashes (new_calls s (after env (IndexMint to (JStr uri)) s)) = [hashBinder env uri]"
    for s :: "'a sys" and to
    by (simp add: new_calls_def index_mintNFT_run split: prod.splits sum.splits)
  have b: "written_hashes (new_calls s (after env (Evolve i (JStr uri)) s)) = [hashBinder env uri]"
    for s :: "'a sys" and i
    by (simp add: new_calls_def evolveNFT_run split: prod.splits sum.splits)
  have c: "written_hashes (new_calls s (after env (Part0Mint to (JStr uri)) s)) =
      (if contract_present env then [hashBinder env uri] else [])"
    for s :: "'a sys" and to
    by (simp add: new_calls_def part0_mintNFT_run part0_mintNFT_absent
          split: prod.splits sum.splits option.splits)
  show ?thesis
    unfolding a b c by (simp add: hashBinder_def)
qed

section \<open>Upload without a file\<close>

text \<open>
  Claim C10. A \<^verbatim>\<open>POST /upload-image\<close> request without a file (\<^verbatim>\<open>req.file\<close> undefined) is
  answered with status 400 and an error message, whatever \<^verbatim>\<open>req.body\<close> is, and leaves the
  log of external calls as it was: nothing is uploaded, neither image nor metadata.
\<close>

theorem upload_image_without_file:
  "fst (part0_app env (PPostUploadImage None reqBody) s) =
     \<lparr>status = 400, body = json_error no_file_message\<rparr> \<and>
   error_message (json_error no_file_message) = Some no_file_message \<and>
   snd (part0_app env (PPostUploadImage None reqBody) s) = s \<and>
   filter is_store_call
     (new_calls s (snd (part0_app env (PPostUploadImage None reqBody) s))) = []"
  by (simp add: part0_post_upload_image_def try_catch_def ok_def new_calls_def json_error_def)

section \<open>After the receipt\<close>

text \<open>
  Claim C2, as amended. Neither \<open>mintNFT\<close> nor \<open>evolveNFT\<close> reads the ledger after the
  receipt or compares any hash. When the submission and \<^verbatim>\<open>tx.wait()\<close> both resolve, the
  calls of the operation are exactly the write and the wait, the world is left as
  \<^verbatim>\<open>tx.wait()\<close> left it, and the operation succeeds whatever the ledger recorded; the one
  failure that can still follow is \<^verbatim>\<open>ethers.getBigInt\<close> rejecting the \<^verbatim>\<open>tokenId\<close> of the
  Transfer log, in \<^verbatim>\<open>part_000\<close>.
\<close>

theorem no_check_after_the_receipt:
  "(contract_safeMint env (world s) to uri (hashBinder env uri) = (Inr t, w1) \<and>
    tx_wait env w1 t = (Inr r, w2) \<longrightarrow>
      index_mintNFT env to (JStr uri) s =
        (Inr (tx_hash t),
         \<lparr>world = w2, calls = calls s @ [SafeMint to uri (hashBinder env uri), TxWait t]\<rparr>) \<and>
      (contract_present env \<longrightarrow>
         snd (part0_mintNFT env to (JStr uri) s) =
           \<lparr>world = w2, calls = calls s @ [SafeMint to uri (hashBinder env uri), TxWait t]\<rparr> \<and>
         (usable_receipt r \<longrightarrow> \<not> isl (fst (part0_mintNFT env to (JStr uri) s))) \<and>
         (\<not> usable_receipt r \<longrightarrow> fst (part0_mintNFT env to (JStr uri) s) = Inl (bigint_error env)))) \<and>
   (contract_commitEvolution env (world s) i uri' (hashBinder env uri') = (Inr t', w1') \<and>
    tx_wait env w1' t' = (Inr r', w2') \<longrightarrow>
      evolveNFT env i (JStr uri') s =
        (Inr (tx_hash t'),
         \<lparr>world = w2', calls = calls s @ [CommitEvolution i uri' (hashBinder env uri'), TxWait t']\<rparr>))"
  by (auto simp: index_mintNFT_run part0_mintNFT_run evolveNFT_run usable_receipt_def split: option.splits)

theorem no_check_after_the_receipt_witness:
  "index_mintNFT faulty_env (JStr ''0xABC'') (JStr ''ipfs://Qm123'') sys0 =
     (Inr ''0xT1'',
      \<lparr>world = [(''1'', ''ipfs://Qm123'', ''0xBAD'')],
       calls = [SafeMint (JStr ''0xABC'') ''ipfs://Qm123'' (hashBinder faulty_env ''ipfs://Qm123''),
                TxWait (Tx ''0xT1'')]\<rparr>) \<and>
   snd (part0_mintNFT faulty_env (JStr ''0xABC'') (JStr ''ipfs://Qm123'') sys0) =
      \<lparr>world = [(''1'', ''ipfs://Qm123'', ''0xBAD'')],
       calls = [SafeMint (JStr ''0xABC'') ''ipfs://Qm123'' (hashBinder faulty_env ''ipfs://Qm123''),
                TxWait (Tx ''0xT1'')]\<rparr> \<and>
   \<not> isl (fst (part0_mintNFT faulty_env (JStr ''0xABC'') (JStr ''ipfs://Qm123'') sys0)) \<and>
   evolveNFT faulty_env ''1'' (JStr ''ipfs://Qm999'')
       \<lparr>world = [(''1'', ''ipfs://Qm123'', ''0xBAD'')], calls = []\<rparr> =
     (Inr ''0xE1'',
      \<lparr>world = [(''1'', ''ipfs://Qm999'', hashBinder faulty_env ''ipfs://Qm999'')],
       calls = [CommitEvolution ''1'' ''ipfs://Qm999'' (hashBinder faulty_env ''ipfs://Qm999''),
                TxWait (Tx ''0xE1'')]\<rparr>)"
proof -
  let ?w1 = "[(''1'', ''ipfs://Qm123'', ''0xBAD'')] :: test_world"
  let ?w2 = "[(''1'', ''ipfs://Qm999'', hashBinder faulty_env ''ipfs://Qm999'')] :: test_world"
  have submit: "contract_safeMint faulty_env (world sys0) (JStr ''0xABC'') ''ipfs://Qm123''
      (hashBinder faulty_env ''ipfs://Qm123'') = (Inr (Tx ''0xT1''), ?w1)"
    by (simp add: faulty_env_simps eval_simps)
  have confirm: "tx_wait faulty_env ?w1 (Tx ''0xT1'') = (Inr (test_receipt ?w1 (Tx ''0xT1'')), ?w1)"
    by (simp add: faulty_env_simps)
  have usable: "usable_receipt (test_receipt ?w1 (Tx ''0xT1''))"
    by (simp add: usable_receipt_def eval_simps)
  have update: "contract_commitEvolution faulty_env (world \<lparr>world = ?w1, calls = []\<rparr>) ''1'' ''ipfs://Qm999''
      (hashBinder faulty_env ''ipfs://Qm999'') = (Inr (Tx ''0xE1''), ?w2)"
    by (simp add: faulty_env_def test_env_simps)
  have confirm': "tx_wait faulty_env ?w2 (Tx ''0xE1'') = (Inr (test_receipt ?w2 (Tx ''0xE1'')), ?w2)"
    by (simp add: faulty_env_simps)
  have present: "contract_present faulty_env"
    by (simp add: faulty_env_simps)
  from no_check_after_the_receipt
    [where env = faulty_env and s = sys0 and to = "JStr ''0xABC''" and uri = "''ipfs://Qm123''"
       and t = "Tx ''0xT1''" and ?w1.0 = ?w1 and r = "test_receipt ?w1 (Tx ''0xT1'')" and ?w2.0 = ?w1]
    submit confirm usable present
  have mint: "index_mintNFT faulty_env (JStr ''0xABC'') (JStr ''ipfs://Qm123'') sys0 =
       (Inr ''0xT1'',
        \<lparr>world = ?w1,
         calls = [SafeMint (JStr ''0xABC'') ''ipfs://Qm123'' (hashBinder faulty_env ''ipfs://Qm123''),
                  TxWait (Tx ''0xT1'')]\<rparr>) \<and>
     snd (part0_mintNFT faulty_env (JStr ''0xABC'') (JStr ''ipfs://Qm123'') sys0) =
        \<lparr>world = ?w1,
         calls = [SafeMint (JStr ''0xABC'') ''ipfs://Qm123'' (hashBinder faulty_env ''ipfs://Qm123''),
                  TxWait (Tx ''0xT1'')]\<rparr> \<and>
     \<not> isl (fst (part0_mintNFT faulty_env (JStr ''0xABC'') (JStr ''ipfs://Qm123'') sys0))"
    by (simp add: sys0_def)
  from no_check_after_the_receipt
    [where env = faulty_env and s = "\<lparr>world = ?w1, calls = []\<rparr>" and i = "''1''"
       and uri' = "''ipfs://Qm999''" and t' = "Tx ''0xE1''" and w1' = ?w2
       and r' = "test_receipt ?w2 (Tx ''0xE1'')" and w2' = ?w2]
    update confirm'
  have evolve: "evolveNFT faulty_env ''1'' (JStr ''ipfs://Qm999'') \<lparr>world = ?w1, calls = []\<rparr> =
     (Inr ''0xE1'',
      \<lparr>world = ?w2,
       calls = [CommitEvolution ''1'' ''ipfs://Qm999'' (hashBinder faulty_env ''ipfs://Qm999''),
                TxWait (Tx ''0xE1'')]\<rparr>)"
    by simp
  from mint evolve show ?thesis by blast
qed

text \<open>
  Claim C2 as stated fails: on a ledger that records another hash than the one
  submitted, \<open>mintNFT\<close> of both files and the \<^verbatim>\<open>/mint\<close> handler report success, and the
  record on the ledger holds a hash that is not the hash computed locally.
\<close>

theorem mismatch_accepted_counterexample:
  "part0_mintNFT faulty_env (JStr ''0xABC'') (JStr ''ipfs://Qm123'') sys0 =
     (Inr (JObj [(''success'', JBool True), (''txHash'', JStr ''0xT1''),
                 (''tokenId'', JStr ''1''), (''metadataUri'', JStr ''ipfs://Qm123'')]),
      \<lparr>world = [(''1'', ''ipfs://Qm123'', ''0xBAD'')],
       calls = [SafeMint (JStr ''0xABC'') ''ipfs://Qm123'' (hashBinder faulty_env ''ipfs://Qm123''),
                TxWait (Tx ''0xT1'')]\<rparr>) \<and>
   index_mintNFT faulty_env (JStr ''0xABC'') (JStr ''ipfs://Qm123'') sys0 =
     (Inr ''0xT1'',
      \<lparr>world = [(''1'', ''ipfs://Qm123'', ''0xBAD'')],
       calls = [SafeMint (JStr ''0xABC'') ''ipfs://Qm123'' (hashBinder faulty_env ''ipfs://Qm123''),
                TxWait (Tx ''0xT1'')]\<rparr>) \<and>
   ''0xBAD'' \<noteq> hashBinder faulty_env ''ipfs://Qm123'' \<and>
   status (fst (part0_app faulty_env (PPostMint mint_body) sys0)) = 200"
proof -
  have ne: "''0xBAD'' \<noteq> hashBinder faulty_env ''ipfs://Qm123''"
    by (simp add: hashBinder_def faulty_env_def test_env_def)
  have a: "part0_mintNFT faulty_env (JStr ''0xABC'') (JStr ''ipfs://Qm123'') sys0 =
     (Inr (JObj [(''success'', JBool True), (''txHash'', JStr ''0xT1''),
                 (''tokenId'', JStr ''1''), (''metadataUri'', JStr ''ipfs://Qm123'')]),
      \<lparr>world = [(''1'', ''ipfs://Qm123'', ''0xBAD'')],
       calls = [SafeMint (JStr ''0xABC'') ''ipfs://Qm123'' (hashBinder faulty_env ''ipfs://Qm123''),
                TxWait (Tx ''0xT1'')]\<rparr>)"
    by (simp add: part0_mintNFT_run faulty_env_simps eval_simps)
  have b: "index_mintNFT faulty_env (JStr ''0xABC'') (JStr ''ipfs://Qm123'') sys0 =
     (Inr ''0xT1'',
      \<lparr>world = [(''1'', ''ipfs://Qm123'', ''0xBAD'')],
       calls = [SafeMint (JStr ''0xABC'') ''ipfs://Qm123'' (hashBinder faulty_env ''ipfs://Qm123''),
                TxWait (Tx ''0xT1'')]\<rparr>)"
    by (simp add: index_mintNFT_run faulty_env_simps eval_simps)
  have c: "status (fst (part0_app faulty_env (PPostMint mint_body) sys0)) = 200"
    by (simp add: part0_post_mint_def try_catch_def await_def ok_def destructure_def mint_body_def a)
  from a b ne c show ?thesis by blast
qed

section \<open>The answer to a mint request\<close>

lemma truthy_prop: "truthy (js_prop k b) \<Longrightarrow> \<not> nullish b"
  by (cases b) simp_all

lemma string_prop: "js_prop k b = JStr uri \<Longrightarrow> \<not> nullish b"
  by (cases b) simp_all

lemma index_post_mint_run:
  "truthy (js_prop ''to'' b) \<Longrightarrow> js_prop ''metadataUri'' b = JStr uri \<Longrightarrow> uri \<noteq> [] \<Longrightarrow>
   index_post_mint env b s =
     (case index_mintNFT env (js_prop ''to'' b) (JStr uri) s of
        (Inl msg, s') \<Rightarrow> (\<lparr>status = 500, body = json_error msg\<rparr>, s')
      | (Inr txHash, s') \<Rightarrow>
          (\<lparr>status = 200,
            body = JObj [(''success'', JBool True), (''txHash'', JStr txHash), (''metadataUri'', JStr uri)]\<rparr>, s'))"
  by (simp add: index_post_mint_def try_catch_def await_def ok_def destructure_def truthy_prop
        split: prod.splits sum.splits)

lemma part0_post_mint_run:
  "truthy (js_prop ''to'' b) \<Longrightarrow> js_prop ''metadataUri'' b = JStr uri \<Longrightarrow> uri \<noteq> [] \<Longrightarrow>
   part0_post_mint env b s =
     (case part0_mintNFT env (js_prop ''to'' b) (JStr uri) s of
        (Inl msg, s') \<Rightarrow> (\<lparr>status = 500, body = json_error msg\<rparr>, s')
      | (Inr result, s') \<Rightarrow> (\<lparr>status = 200, body = result\<rparr>, s'))"
  by (simp add: part0_post_mint_def try_catch_def await_def ok_def destructure_def truthy_prop
        split: prod.splits sum.splits)

text \<open>
  Claim C3, as amended. For every \<^verbatim>\<open>POST /mint\<close> request in whose body \<open>to\<close> is truthy and
  \<open>metadataUri\<close> is a non-empty string, and whose submission and \<^verbatim>\<open>tx.wait()\<close> resolve:
  \<^verbatim>\<open>src/index.js\<close> answers 200 with \<^verbatim>\<open>{success:true, txHash, metadataUri}\<close>, without a
  \<^verbatim>\<open>tokenId\<close>; \<^verbatim>\<open>part_000\<close> answers 200 with \<^verbatim>\<open>{success:true, txHash, tokenId, metadataUri}\<close>,
  where \<^verbatim>\<open>tokenId\<close> is the decimal string of the \<^verbatim>\<open>tokenId\<close> of the first Transfer log of
  the receipt, or the string \<^verbatim>\<open>unknown\<close> when the receipt has no Transfer log (and 500
  when \<^verbatim>\<open>ethers.getBigInt\<close> rejects that \<^verbatim>\<open>tokenId\<close>).
\<close>

theorem mint_response_body:
  "truthy (js_prop ''to'' reqBody) \<and> js_prop ''metadataUri'' reqBody = JStr uri \<and> uri \<noteq> [] \<and>
   contract_safeMint env (world s) (js_prop ''to'' reqBody) uri (hashBinder env uri) = (Inr t, w1) \<and>
   tx_wait env w1 t = (Inr r, w2) \<longrightarrow>
     fst (index_app env (IPostMint reqBody) s) =
       \<lparr>status = 200,
        body = JObj [(''success'', JBool True), (''txHash'', JStr (tx_hash t)),
                     (''metadataUri'', JStr uri)]\<rparr> \<and>
     (contract_present env \<longrightarrow>
        fst (part0_app env (PPostMint reqBody) s) =
          (case find (\<lambda>l. fragment_name l = Some ''Transfer'') (logs r) of
             None \<Rightarrow>
               \<lparr>status = 200,
                body = JObj [(''success'', JBool True), (''txHash'', JStr (tx_hash t)),
                             (''tokenId'', JStr ''unknown''), (''metadataUri'', JStr uri)]\<rparr>
           | Some event \<Rightarrow>
               (case args_tokenId event of
                  None \<Rightarrow> \<lparr>status = 500, body = json_error (bigint_error env)\<rparr>
                | Some n \<Rightarrow>
                    \<lparr>status = 200,
                     body = JObj [(''success'', JBool True), (''txHash'', JStr (tx_hash t)),
                                  (''tokenId'', JStr (bigint_toString n)), (''metadataUri'', JStr uri)]\<rparr>)))"
  by (simp add: index_post_mint_run part0_post_mint_run index_mintNFT_run part0_mintNFT_run
        split: option.splits)

theorem mint_response_body_witness:
  "fst (index_app test_env (IPostMint mint_body) sys0) =
     \<lparr>status = 200,
      body = JObj [(''success'', JBool True), (''txHash'', JStr ''0xT1''),
                   (''metadataUri'', JStr ''ipfs://Qm123'')]\<rparr> \<and>
   fst (part0_app test_env (PPostMint mint_body) sys0) =
     \<lparr>status = 200,
      body = JObj [(''success'', JBool True), (''txHash'', JStr ''0xT1''),
                   (''tokenId'', JStr ''1''), (''metadataUri'', JStr ''ipfs://Qm123'')]\<rparr>"
proof -
  let ?w1 = "[(''1'', ''ipfs://Qm123'', hashBinder test_env ''ipfs://Qm123'')] :: test_world"
  have submit: "contract_safeMint test_env (world sys0) (JStr ''0xABC'') ''ipfs://Qm123''
      (hashBinder test_env ''ipfs://Qm123'') = (Inr (Tx ''0xT1''), ?w1)"
    by (simp add: eval_simps)
  have confirm: "tx_wait test_env ?w1 (Tx ''0xT1'') = (Inr (test_receipt ?w1 (Tx ''0xT1'')), ?w1)"
    by (simp add: eval_simps)
  have given: "truthy (js_prop ''to'' mint_body)" "js_prop ''metadataUri'' mint_body = JStr ''ipfs://Qm123''"
    "''ipfs://Qm123'' \<noteq> []" "contract_present test_env" "js_prop ''to'' mint_body = JStr ''0xABC''"
    by (simp_all add: eval_simps mint_body_def)
  from mint_response_body
    [where env = test_env and s = sys0 and reqBody = mint_body and uri = "''ipfs://Qm123''"
       and t = "Tx ''0xT1''" and ?w1.0 = ?w1 and r = "test_receipt ?w1 (Tx ''0xT1'')" and ?w2.0 = ?w1]
    submit confirm given
  show ?thesis
    by (simp add: test_receipt_def bigint_toString_def string_of_nat_digits)
qed

text \<open>
  Claim C3 as stated fails: behind an ABI without the Transfer event the ledger creates
  record 1 and \<^verbatim>\<open>part_000\<close> answers 200 with \<^verbatim>\<open>tokenId\<close> \<^verbatim>\<open>unknown\<close>; and the 200 body of
  \<^verbatim>\<open>src/index.js\<close> has no \<^verbatim>\<open>tokenId\<close> at all.
\<close>

theorem mint_token_id_counterexample:
  "fst (part0_app silent_env (PPostMint mint_body) sys0) =
     \<lparr>status = 200,
      body = JObj [(''success'', JBool True), (''txHash'', JStr ''0xT1''),
                   (''tokenId'', JStr ''unknown''), (''metadataUri'', JStr ''ipfs://Qm123'')]\<rparr> \<and>
   map fst (world (snd (part0_app silent_env (PPostMint mint_body) sys0))) = [''1''] \<and>
   status (fst (index_app test_env (IPostMint mint_body) sys0)) = 200 \<and>
   js_prop ''tokenId'' (body (fst (index_app test_env (IPostMint mint_body) sys0))) = JUndefined"
  by (simp add: index_post_mint_def part0_post_mint_def try_catch_def await_def ok_def destructure_def
        index_mintNFT_run part0_mintNFT_run silent_env_simps eval_simps mint_body_def)

section \<open>A receipt without a Transfer event\<close>

text \<open>
  Claim C5, as amended. When the transaction of a create confirms and the receipt has
  no Transfer log, the create succeeds: \<open>mintNFT\<close> of \<^verbatim>\<open>part_000\<close> returns its result with
  the placeholder \<^verbatim>\<open>unknown\<close> as \<^verbatim>\<open>tokenId\<close>, and \<open>mintNFT\<close> of \<^verbatim>\<open>src/index.js\<close>, which does
  not look at the logs, returns the transaction hash. Neither raises an error.
\<close>

theorem mint_without_transfer_event:
  "contract_safeMint env (world s) to uri (hashBinder env uri) = (Inr t, w1) \<and>
   tx_wait env w1 t = (Inr r, w2) \<and>
   find (\<lambda>l. fragment_name l = Some ''Transfer'') (logs r) = None \<longrightarrow>
     index_mintNFT env to (JStr uri) s =
       (Inr (tx_hash t),
        \<lparr>world = w2, calls = calls s @ [SafeMint to uri (hashBinder env uri), TxWait t]\<rparr>) \<and>
     (contract_present env \<longrightarrow>
        part0_mintNFT env to (JStr uri) s =
          (Inr (JObj [(''success'', JBool True), (''txHash'', JStr (tx_hash t)),
                      (''tokenId'', JStr ''unknown''), (''metadataUri'', JStr uri)]),
           \<lparr>world = w2, calls = calls s @ [SafeMint to uri (hashBinder env uri), TxWait t]\<rparr>))"
  by (simp add: index_mintNFT_run part0_mintNFT_run)

theorem mint_without_transfer_event_witness:
  "index_mintNFT silent_env (JStr ''0xABC'') (JStr ''ipfs://Qm123'') sys0 =
     (Inr ''0xT1'',
      \<lparr>world = [(''1'', ''ipfs://Qm123'', hashBinder silent_env ''ipfs://Qm123'')],
       calls = [SafeMint (JStr ''0xABC'') ''ipfs://Qm123'' (hashBinder silent_env ''ipfs://Qm123''),
                TxWait (Tx ''0xT1'')]\<rparr>) \<and>
   part0_mintNFT silent_env (JStr ''0xABC'') (JStr ''ipfs://Qm123'') sys0 =
     (Inr (JObj [(''success'', JBool True), (''txHash'', JStr ''0xT1''),
                 (''tokenId'', JStr ''unknown''), (''metadataUri'', JStr ''ipfs://Qm123'')]),
      \<lparr>world = [(''1'', ''ipfs://Qm123'', hashBinder silent_env ''ipfs://Qm123'')],
       calls = [SafeMint (JStr ''0xABC'') ''ipfs://Qm123'' (hashBinder silent_env ''ipfs://Qm123''),
                TxWait (Tx ''0xT1'')]\<rparr>)"
proof -
  let ?w1 = "[(''1'', ''ipfs://Qm123'', hashBinder silent_env ''ipfs://Qm123'')] :: test_world"
  let ?r = "\<lparr>logs = [\<lparr>fragment_name = None, args_tokenId = None\<rparr>]\<rparr>"
  have submit: "contract_safeMint silent_env (world sys0) (JStr ''0xABC'') ''ipfs://Qm123''
      (hashBinder silent_env ''ipfs://Qm123'') = (Inr (Tx ''0xT1''), ?w1)"
    by (simp add: silent_env_simps eval_simps)
  have confirm: "tx_wait silent_env ?w1 (Tx ''0xT1'') = (Inr ?r, ?w1)"
    by (simp add: silent_env_simps)
  have nothing: "find (\<lambda>l. fragment_name l = Some ''Transfer'') (logs ?r) = None"
    by simp
  have present: "contract_present silent_env"
    by (simp add: silent_env_simps)
  from mint_without_transfer_event
    [where env = silent_env and s = sys0 and to = "JStr ''0xABC''" and uri = "''ipfs://Qm123''"
       and t = "Tx ''0xT1''" and ?w1.0 = ?w1 and r = ?r and ?w2.0 = ?w1]
    submit confirm nothing present
  show ?thesis
    by (simp add: sys0_def)
qed

text \<open>
  Claim C5 as stated fails: the receipt below has no Transfer log, and \<open>mintNFT\<close>
  succeeds with the placeholder where the claim wants a ParseError.
\<close>

theorem placeholder_token_id_counterexample:
  "part0_mintNFT silent_env (JStr ''0xABC'') (JStr ''ipfs://Qm123'') sys0 =
     (Inr (JObj [(''success'', JBool True), (''txHash'', JStr ''0xT1''),
                 (''tokenId'', JStr ''unknown''), (''metadataUri'', JStr ''ipfs://Qm123'')]),
      \<lparr>world = [(''1'', ''ipfs://Qm123'', hashBinder silent_env ''ipfs://Qm123'')],
       calls = [SafeMint (JStr ''0xABC'') ''ipfs://Qm123'' (hashBinder silent_env ''ipfs://Qm123''),
                TxWait (Tx ''0xT1'')]\<rparr>) \<and>
   find (\<lambda>l. fragment_name l = Some ''Transfer'')
     (logs \<lparr>logs = [\<lparr>fragment_name = None, args_tokenId = None\<rparr>]\<rparr>) = None \<and>
   tx_wait silent_env [(''1'', ''ipfs://Qm123'', hashBinder silent_env ''ipfs://Qm123'')] (Tx ''0xT1'') =
     (Inr \<lparr>logs = [\<lparr>fragment_name = None, args_tokenId = None\<rparr>]\<rparr>,
      [(''1'', ''ipfs://Qm123'', hashBinder silent_env ''ipfs://Qm123'')])"
  by (simp add: part0_mintNFT_run silent_env_simps eval_simps)

section \<open>The answer of each handler\<close>

text \<open>What each handler answers and the state it leaves, stage by stage: the destructuring
  of \<^verbatim>\<open>req.body\<close>, the checks, the calls, and the \<^verbatim>\<open>catch\<close> block for whatever was thrown.\<close>

lemma parse_attributes_run:
  "parse_attributes env attributes dflt s =
     (case attributes_value env attributes dflt of Inl msg \<Rightarrow> (Inl msg, s) | Inr v \<Rightarrow> (Inr v, s))"
  by (simp add: parse_attributes_def throw_def ok_def split: sum.splits)

lemma destructure_run:
  "destructure k b s = (if nullish b then (Inl (cannot_destructure k b), s) else (Inr b, s))"
  by (simp add: destructure_def throw_def ok_def)

lemma index_post_mint_answer:
  "index_post_mint env b s =
     (if nullish b then (\<lparr>status = 500, body = json_error (cannot_destructure ''to'' b)\<rparr>, s)
      else if \<not> truthy (js_prop ''to'' b) \<or> \<not> truthy (js_prop ''metadataUri'' b)
      then (\<lparr>status = 400, body = json_error ''to and metadataUri are required''\<rparr>, s)
      else (case index_mintNFT env (js_prop ''to'' b) (js_prop ''metadataUri'' b) s of
              (Inl msg, s') \<Rightarrow> (\<lparr>status = 500, body = json_error msg\<rparr>, s')
            | (Inr txHash, s') \<Rightarrow>
                (\<lparr>status = 200,
                  body = JObj [(''success'', JBool True), (''txHash'', JStr txHash),
                               (''metadataUri'', js_prop ''metadataUri'' b)]\<rparr>, s')))"
  by (simp add: index_post_mint_def try_catch_def await_def ok_def destructure_run
        split: prod.splits sum.splits)

lemma part0_post_mint_answer:
  "part0_post_mint env b s =
     (if nullish b then (\<lparr>status = 500, body = json_error (cannot_destructure ''to'' b)\<rparr>, s)
      else if \<not> truthy (js_prop ''to'' b) \<or> \<not> truthy (js_prop ''metadataUri'' b)
      then (\<lparr>status = 400, body = json_error ''to and metadataUri are required''\<rparr>, s)
      else (case part0_mintNFT env (js_prop ''to'' b) (js_prop ''metadataUri'' b) s of
              (Inl msg, s') \<Rightarrow> (\<lparr>status = 500, body = json_error msg\<rparr>, s')
            | (Inr result, s') \<Rightarrow> (\<lparr>status = 200, body = result\<rparr>, s')))"
  by (simp add: part0_post_mint_def try_catch_def await_def ok_def destructure_run
        split: prod.splits sum.splits)

lemma part0_post_evolve_answer:
  "part0_post_evolve env tokenId b s =
     (if nullish b then (\<lparr>status = 500, body = json_failure (cannot_destructure ''metadataUri'' b)\<rparr>, s)
      else if \<not> truthy (js_prop ''metadataUri'' b)
      then (\<lparr>status = 400, body = json_error ''metadataUri is required''\<rparr>, s)
      else (case evolveNFT env tokenId (js_prop ''metadataUri'' b) s of
              (Inl msg, s') \<Rightarrow> (\<lparr>status = 500, body = json_failure msg\<rparr>, s')
            | (Inr txHash, s') \<Rightarrow>
                (\<lparr>status = 200,
                  body = JObj [(''success'', JBool True), (''txHash'', JStr txHash),
                               (''tokenId'', JStr tokenId),
                               (''metadataUri'', js_prop ''metadataUri'' b)]\<rparr>, s')))"
  by (simp add: part0_post_evolve_def try_catch_def await_def ok_def destructure_run
        split: prod.splits sum.splits)

lemma get_token_answer:
  "get_token env tokenId s =
     (case getTokenURI env tokenId s of
        (Inl msg, s') \<Rightarrow> (\<lparr>status = 500, body = json_failure msg\<rparr>, s')
      | (Inr uri, s') \<Rightarrow>
          (\<lparr>status = 200,
            body = JObj [(''success'', JBool True), (''tokenId'', JStr tokenId), (''uri'', uri)]\<rparr>, s'))"
  by (simp add: get_token_def try_catch_def await_def ok_def split: prod.splits sum.splits)

lemma part0_post_upload_image_answer:
  "part0_post_upload_image env file b s =
     (case file of
        None \<Rightarrow> (\<lparr>status = 400, body = json_error no_file_message\<rparr>, s)
      | Some f \<Rightarrow>
          if nullish b then (\<lparr>status = 500, body = json_failure (cannot_destructure ''name'' b)\<rparr>, s)
          else
            (case pinFileToIPFS env (world s) (buffer f) (originalname f) of
               (Inl msg, w1) \<Rightarrow>
                 (\<lparr>status = 500, body = json_failure msg\<rparr>,
                  \<lparr>world = w1, calls = calls s @ [PinFile (buffer f) (originalname f)]\<rparr>)
             | (Inr imageCid, w1) \<Rightarrow>
                 (case attributes_value env (js_prop ''attributes'' b) (JArr []) of
                    Inl msg \<Rightarrow>
                      (\<lparr>status = 500, body = json_failure msg\<rparr>,
                       \<lparr>world = w1, calls = calls s @ [PinFile (buffer f) (originalname f)]\<rparr>)
                  | Inr attrs \<Rightarrow>
                      (case pinJSONToIPFS env w1
                              (uploaded_metadata (js_prop ''name'' b) (js_prop ''description'' b) imageCid attrs) of
                         (Inl msg, w2) \<Rightarrow>
                           (\<lparr>status = 500, body = json_failure msg\<rparr>,
                            \<lparr>world = w2,
                             calls = calls s @ [PinFile (buffer f) (originalname f),
                               PinJSON (uploaded_metadata (js_prop ''name'' b) (js_prop ''description'' b)
                                          imageCid attrs)]\<rparr>)
                       | (Inr metadataCid, w2) \<Rightarrow>
                           (\<lparr>status = 200,
                             body = JObj [(''success'', JBool True), (''imageCid'', JStr imageCid),
                                          (''metadataCid'', JStr metadataCid),
                                          (''metadataUri'', JStr (''ipfs://'' @ metadataCid)),
                                          (''metadata'',
                                           uploaded_metadata (js_prop ''name'' b) (js_prop ''description'' b)
                                             imageCid attrs)]\<rparr>,
                            \<lparr>world = w2,
                             calls = calls s @ [PinFile (buffer f) (originalname f),
                               PinJSON (uploaded_metadata (js_prop ''name'' b) (js_prop ''description'' b)
                                          imageCid attrs)]\<rparr>)))))"
  by (simp add: part0_post_upload_image_def try_catch_def await_def ok_def destructure_run
        uploadImageToPinata_def uploadJSONToPinata_def perform_def parse_attributes_run
        split: option.splits prod.splits sum.splits)

lemma index_post_evolve_answer:
  "index_post_evolve env tokenId b (Some f) s =
     (if nullish b then (\<lparr>status = 500, body = json_failure (cannot_destructure ''attributes'' b)\<rparr>, s)
      else
        (case pinFileToIPFS env (world s) (buffer f) (originalname f) of
           (Inl msg, w1) \<Rightarrow>
             (\<lparr>status = 500, body = json_failure msg\<rparr>,
              \<lparr>world = w1, calls = calls s @ [PinFile (buffer f) (originalname f)]\<rparr>)
         | (Inr imageCid, w1) \<Rightarrow>
             (case attributes_value env (js_prop ''attributes'' b) (JObj []) of
                Inl msg \<Rightarrow>
                  (\<lparr>status = 500, body = json_failure msg\<rparr>,
                   \<lparr>world = w1, calls = calls s @ [PinFile (buffer f) (originalname f)]\<rparr>)
              | Inr attrs \<Rightarrow>
                  (case pinJSONToIPFS env w1 (evolved_metadata tokenId imageCid attrs) of
                     (Inl msg, w2) \<Rightarrow>
                       (\<lparr>status = 500, body = json_failure msg\<rparr>,
                        \<lparr>world = w2,
                         calls = calls s @ [PinFile (buffer f) (originalname f),
                                            PinJSON (evolved_metadata tokenId imageCid attrs)]\<rparr>)
                   | (Inr metadataCid, w2) \<Rightarrow>
                       (case evolveNFT env tokenId (JStr (''ipfs://'' @ metadataCid))
                               \<lparr>world = w2,
                                calls = calls s @ [PinFile (buffer f) (originalname f),
                                                   PinJSON (evolved_metadata tokenId imageCid attrs)]\<rparr> of
                          (Inl msg, s') \<Rightarrow> (\<lparr>status = 500, body = json_failure msg\<rparr>, s')
                        | (Inr txHash, s') \<Rightarrow>
                            (\<lparr>status = 200,
                              body = JObj [(''success'', JBool True), (''txHash'', JStr txHash),
                                           (''imageCid'', JStr imageCid),
                                           (''metadataCid'', JStr metadataCid)]\<rparr>, s'))))))"
  by (simp add: index_post_evolve_def try_catch_def await_def ok_def destructure_run
        uploadImageToPinata_def uploadJSONToPinata_def perform_def parse_attributes_run
        split: option.splits prod.splits sum.splits)

lemma index_post_evolve_no_file:
  "index_post_evolve env tokenId b None s =
     (\<lparr>status = 500,
       body = json_failure (if nullish b then cannot_destructure ''attributes'' b
                            else read_of_undefined ''buffer'')\<rparr>, s)"
  by (simp add: index_post_evolve_def try_catch_def await_def throw_def destructure_run)

section \<open>The answer to an evolve request\<close>

text \<open>
  Claim C4, as amended. In \<^verbatim>\<open>part_000\<close>, for every \<^verbatim>\<open>POST /evolve/:tokenId\<close> request with a
  parsed body (\<^verbatim>\<open>req.body\<close> is neither undefined nor null): when \<open>metadataUri\<close> is absent
  from the body, or otherwise falsy, the answer is 400 with
  \<^verbatim>\<open>{error: "metadataUri is required"}\<close> and no external call is made; when \<open>metadataUri\<close> is
  a non-empty string and the update and its wait resolve, the answer is 200 with
  \<^verbatim>\<open>{success:true, txHash, tokenId, metadataUri}\<close>, echoing the token id and the reference
  given. In \<^verbatim>\<open>src/index.js\<close> the handler of the same route never reads \<open>metadataUri\<close>: two
  parsed bodies with the same \<open>attributes\<close> are answered alike; it takes an uploaded file
  and, when both uploads and the update succeed, answers 200 with
  \<^verbatim>\<open>{success:true, txHash, imageCid, metadataCid}\<close>.
\<close>

theorem evolve_request:
  "(\<not> nullish b1 \<and> \<not> truthy (js_prop ''metadataUri'' b1) \<longrightarrow>
      part0_app env (PPostEvolve tokenId b1) s =
        (\<lparr>status = 400, body = json_error ''metadataUri is required''\<rparr>, s)) \<and>
   (js_prop ''metadataUri'' b2 = JStr uri \<and> uri \<noteq> [] \<and>
    contract_commitEvolution env (world s) tokenId uri (hashBinder env uri) = (Inr t, w1) \<and>
    tx_wait env w1 t = (Inr r, w2) \<longrightarrow>
      fst (part0_app env (PPostEvolve tokenId b2) s) =
        \<lparr>status = 200,
         body = JObj [(''success'', JBool True), (''txHash'', JStr (tx_hash t)),
                      (''tokenId'', JStr tokenId), (''metadataUri'', JStr uri)]\<rparr>) \<and>
   (\<not> nullish b3 \<and> \<not> nullish b4 \<and> js_prop ''attributes'' b3 = js_prop ''attributes'' b4 \<longrightarrow>
      index_app env (IPostEvolve tokenId b3 (Some f)) s =
      index_app env (IPostEvolve tokenId b4 (Some f)) s) \<and>
   (\<not> nullish b5 \<and>
    pinFileToIPFS env (world s) (buffer f) (originalname f) = (Inr imageCid, v1) \<and>
    attributes_value env (js_prop ''attributes'' b5) (JObj []) = Inr attrs \<and>
    pinJSONToIPFS env v1 (evolved_metadata tokenId imageCid attrs) = (Inr metadataCid, v2) \<and>
    contract_commitEvolution env v2 tokenId (''ipfs://'' @ metadataCid)
      (hashBinder env (''ipfs://'' @ metadataCid)) = (Inr t', v3) \<and>
    tx_wait env v3 t' = (Inr r', v4) \<longrightarrow>
      fst (index_app env (IPostEvolve tokenId b5 (Some f)) s) =
        \<lparr>status = 200,
         body = JObj [(''success'', JBool True), (''txHash'', JStr (tx_hash t')),
                      (''imageCid'', JStr imageCid), (''metadataCid'', JStr metadataCid)]\<rparr>)"
proof (intro conjI impI)
  assume "\<not> nullish b1 \<and> \<not> truthy (js_prop ''metadataUri'' b1)"
  then show "part0_app env (PPostEvolve tokenId b1) s =
      (\<lparr>status = 400, body = json_error ''metadataUri is required''\<rparr>, s)"
    by (simp add: part0_post_evolve_answer)
next
  assume a: "js_prop ''metadataUri'' b2 = JStr uri \<and> uri \<noteq> [] \<and>
    contract_commitEvolution env (world s) tokenId uri (hashBinder env uri) = (Inr t, w1) \<and>
    tx_wait env w1 t = (Inr r, w2)"
  then have "\<not> nullish b2"
    using string_prop [of "''metadataUri''" b2 uri] by blast
  with a show "fst (part0_app env (PPostEvolve tokenId b2) s) =
        \<lparr>status = 200,
         body = JObj [(''success'', JBool True), (''txHash'', JStr (tx_hash t)),
                      (''tokenId'', JStr tokenId), (''metadataUri'', JStr uri)]\<rparr>"
    by (simp add: part0_post_evolve_answer evolveNFT_run)
next
  assume "\<not> nullish b3 \<and> \<not> nullish b4 \<and> js_prop ''attributes'' b3 = js_prop ''attributes'' b4"
  then show "index_app env (IPostEvolve tokenId b3 (Some f)) s =
      index_app env (IPostEvolve tokenId b4 (Some f)) s"
    by (simp add: index_post_evolve_answer split: prod.splits sum.splits)
next
  assume "\<not> nullish b5 \<and>
    pinFileToIPFS env (world s) (buffer f) (originalname f) = (Inr imageCid, v1) \<and>
    attributes_value env (js_prop ''attributes'' b5) (JObj []) = Inr attrs \<and>
    pinJSONToIPFS env v1 (evolved_metadata tokenId imageCid attrs) = (Inr metadataCid, v2) \<and>
    contract_commitEvolution env v2 tokenId (''ipfs://'' @ metadataCid)
      (hashBinder env (''ipfs://'' @ metadataCid)) = (Inr t', v3) \<and>
    tx_wait env v3 t' = (Inr r', v4)"
  then show "fst (index_app env (IPostEvolve tokenId b5 (Some f)) s) =
        \<lparr>status = 200,
         body = JObj [(''success'', JBool True), (''txHash'', JStr (tx_hash t')),
                      (''imageCid'', JStr imageCid), (''metadataCid'', JStr metadataCid)]\<rparr>"
    by (simp add: index_post_evolve_answer evolveNFT_run)
qed

theorem evolve_request_witness:
  "part0_app test_env (PPostEvolve ''1'' (JObj [])) sys1 =
     (\<lparr>status = 400, body = json_error ''metadataUri is required''\<rparr>, sys1) \<and>
   fst (part0_app test_env (PPostEvolve ''1'' evolve_body) sys1) =
     \<lparr>status = 200,
      body = JObj [(''success'', JBool True), (''txHash'', JStr ''0xE1''),
                   (''tokenId'', JStr ''1''), (''metadataUri'', JStr ''ipfs://Qm999'')]\<rparr> \<and>
   index_app test_env (IPostEvolve ''1'' (JObj []) (Some face_png)) sys1 =
   index_app test_env (IPostEvolve ''1'' evolve_body (Some face_png)) sys1 \<and>
   fst (index_app test_env (IPostEvolve ''1'' evolve_body (Some face_png)) sys1) =
     \<lparr>status = 200,
      body = JObj [(''success'', JBool True), (''txHash'', JStr ''0xE1''),
                   (''imageCid'', JStr ''QmImage''), (''metadataCid'', JStr ''QmMeta'')]\<rparr>"
proof -
  let ?w = "[(''1'', ''ipfs://Qm123'', hashBinder test_env ''ipfs://Qm123'')] :: test_world"
  let ?w1 = "[(''1'', ''ipfs://Qm999'', hashBinder test_env ''ipfs://Qm999'')] :: test_world"
  let ?w2 = "[(''1'', ''ipfs://QmMeta'', hashBinder test_env ''ipfs://QmMeta'')] :: test_world"
  have bodies: "\<not> nullish (JObj [])" "\<not> truthy (js_prop ''metadataUri'' (JObj []))"
    "js_prop ''metadataUri'' evolve_body = JStr ''ipfs://Qm999''" "''ipfs://Qm999'' \<noteq> []"
    "\<not> nullish evolve_body" "js_prop ''attributes'' (JObj []) = js_prop ''attributes'' evolve_body"
    by (simp_all add: evolve_body_def)
  have update: "contract_commitEvolution test_env (world sys1) ''1'' ''ipfs://Qm999''
      (hashBinder test_env ''ipfs://Qm999'') = (Inr (Tx ''0xE1''), ?w1)"
    by (simp add: test_env_simps sys1_def)
  have confirm: "tx_wait test_env ?w1 (Tx ''0xE1'') = (Inr (test_receipt ?w1 (Tx ''0xE1'')), ?w1)"
    by (simp add: test_env_simps)
  have image: "pinFileToIPFS test_env (world sys1) (buffer face_png) (originalname face_png) = (Inr ''QmImage'', ?w)"
    by (simp add: test_env_simps sys1_def)
  have attrs: "attributes_value test_env (js_prop ''attributes'' evolve_body) (JObj []) = Inr (JObj [])"
    by (simp add: attributes_value_def evolve_body_def)
  have meta: "pinJSONToIPFS test_env ?w (evolved_metadata ''1'' ''QmImage'' (JObj [])) = (Inr ''QmMeta'', ?w)"
    by (simp add: test_env_simps)
  have update': "contract_commitEvolution test_env ?w ''1'' (''ipfs://'' @ ''QmMeta'')
      (hashBinder test_env (''ipfs://'' @ ''QmMeta'')) = (Inr (Tx ''0xE1''), ?w2)"
    by (simp add: test_env_simps)
  have confirm': "tx_wait test_env ?w2 (Tx ''0xE1'') = (Inr (test_receipt ?w2 (Tx ''0xE1'')), ?w2)"
    by (simp add: test_env_simps)
  from evolve_request
    [where env = test_env and s = sys1 and tokenId = "''1''" and ?b1.0 = "JObj []"
       and ?b2.0 = evolve_body and uri = "''ipfs://Qm999''" and t = "Tx ''0xE1''" and ?w1.0 = ?w1
       and r = "test_receipt ?w1 (Tx ''0xE1'')" and ?w2.0 = ?w1
       and ?b3.0 = "JObj []" and ?b4.0 = evolve_body and ?b5.0 = evolve_body
       and f = face_png and imageCid = "''QmImage''" and ?v1.0 = ?w
       and attrs = "JObj []" and metadataCid = "''QmMeta''" and ?v2.0 = ?w and t' = "Tx ''0xE1''"
       and ?v3.0 = ?w2 and r' = "test_receipt ?w2 (Tx ''0xE1'')" and ?v4.0 = ?w2]
    bodies update confirm image attrs meta update' confirm'
  show ?thesis
    by (simp del: index_app.simps part0_app.simps)
qed

text \<open>
  Claim C4 as stated fails on \<^verbatim>\<open>src/index.js\<close>: a request with a file and without
  \<open>metadataUri\<close> is not answered 400; it is carried out, uploads and ledger update
  included, and answered with a body that has neither \<^verbatim>\<open>tokenId\<close> nor \<^verbatim>\<open>metadataUri\<close>.
\<close>

theorem evolve_request_counterexample:
  "js_prop ''metadataUri'' (JObj []) = JUndefined \<and>
   fst (index_app test_env (IPostEvolve ''1'' (JObj []) (Some face_png)) sys1) =
     \<lparr>status = 200,
      body = JObj [(''success'', JBool True), (''txHash'', JStr ''0xE1''),
                   (''imageCid'', JStr ''QmImage''), (''metadataCid'', JStr ''QmMeta'')]\<rparr> \<and>
   calls (snd (index_app test_env (IPostEvolve ''1'' (JObj []) (Some face_png)) sys1)) =
     [PinFile [137, 80, 78, 71] ''face.png'',
      PinJSON (evolved_metadata ''1'' ''QmImage'' (JObj [])),
      CommitEvolution ''1'' ''ipfs://QmMeta'' (hashBinder test_env ''ipfs://QmMeta''),
      TxWait (Tx ''0xE1'')]"
  by (simp add: index_post_evolve_answer evolveNFT_run attributes_value_def test_env_simps
        sys1_def face_png_def)

section \<open>Failure responses\<close>

lemma responds_ok: "Q r \<Longrightarrow> responds Q (ok r)"
  by (simp add: responds_def ok_def)

lemma responds_throw: "responds Q (throw e)"
  by (simp add: responds_def throw_def)

lemma responds_await:
  assumes "\<And>v. responds Q (k v)"
  shows "responds Q (await m k)"
  unfolding responds_def
proof
  fix s
  obtain x s' where ms: "m s = (x, s')" by (cases "m s")
  show "case fst (await m k s) of Inl e \<Rightarrow> True | Inr r \<Rightarrow> Q r"
  proof (cases x)
    case (Inl e)
    with ms show ?thesis by (simp add: await_def)
  next
    case (Inr v)
    with ms assms [of v, unfolded responds_def, rule_format, of s'] show ?thesis
      by (simp add: await_def)
  qed
qed

lemma responds_try_catch: "responds Q m \<Longrightarrow> (\<And>e. Q (h e)) \<Longrightarrow> Q (fst (try_catch m h s))"
proof -
  assume m: "responds Q m" and h: "\<And>e. Q (h e)"
  obtain x s' where ms: "m s = (x, s')" by (cases "m s")
  show ?thesis
  proof (cases x)
    case (Inl e)
    with ms h show ?thesis by (simp add: try_catch_def)
  next
    case (Inr r)
    with ms m [unfolded responds_def, rule_format, of s] show ?thesis by (simp add: try_catch_def)
  qed
qed

lemma error_bodies:
  "is_error_body (json_error msg)" "is_failure_body (json_failure msg)"
  "error_message (json_error msg) = Some msg" "error_message (json_failure msg) = Some msg"
  by (simp_all add: json_error_def json_failure_def)

lemmas responds_intros = responds_ok responds_throw responds_await

lemma shape_index_post_mint: "failure_shape True (fst (index_post_mint env b s))"
  unfolding index_post_mint_def
  by (rule responds_try_catch) (auto intro!: responds_intros simp: failure_shape_def error_bodies)

lemma shape_part0_post_mint: "failure_shape True (fst (part0_post_mint env b s))"
  unfolding part0_post_mint_def
  by (rule responds_try_catch) (auto intro!: responds_intros simp: failure_shape_def error_bodies)

lemma shape_index_post_evolve: "failure_shape False (fst (index_post_evolve env i b f s))"
  unfolding index_post_evolve_def
  by (rule responds_try_catch) (auto intro!: responds_intros simp: failure_shape_def error_bodies split: option.splits)

lemma shape_part0_post_evolve: "failure_shape False (fst (part0_post_evolve env i b s))"
  unfolding part0_post_evolve_def
  by (rule responds_try_catch) (auto intro!: responds_intros simp: failure_shape_def error_bodies)

lemma shape_part0_post_upload_image: "failure_shape False (fst (part0_post_upload_image env f b s))"
  unfolding part0_post_upload_image_def Let_def
  by (rule responds_try_catch) (auto intro!: responds_intros simp: failure_shape_def error_bodies split: option.splits)

lemma shape_get_token: "failure_shape False (fst (get_token env i s))"
  unfolding get_token_def
  by (rule responds_try_catch) (auto intro!: responds_intros simp: failure_shape_def error_bodies)

lemma shape_index_app: "index_by_express rq \<or> failure_shape (index_is_mint rq) (fst (index_app env rq s))"
  by (cases rq)
     (simp_all add: shape_index_post_mint shape_index_post_evolve shape_get_token,
      simp add: head_ping_def failure_shape_def)

lemma shape_part0_app: "part0_by_express rq \<or> failure_shape (part0_is_mint rq) (fst (part0_app env rq s))"
  by (cases rq)
     (simp_all add: shape_part0_post_mint shape_part0_post_evolve shape_get_token shape_part0_post_upload_image,
      simp_all add: head_ping_def part0_error_middleware_def failure_shape_def error_bodies)

text \<open>
  Claim C7, as amended. Of the responses that the route handlers of the two files send,
  and the error middleware of \<^verbatim>\<open>part_000\<close>: the status is 200, 400 or 500; no handler sends
  404, 502 or 503. A 400 has the body \<^verbatim>\<open>{error: msg}\<close> and is sent in exactly these cases:
  \<^verbatim>\<open>POST /mint\<close> with a parsed body in which \<open>to\<close> or \<open>metadataUri\<close> is falsy;
  \<^verbatim>\<open>POST /evolve\<close> of \<^verbatim>\<open>part_000\<close> with a parsed body in which \<open>metadataUri\<close> is falsy;
  \<^verbatim>\<open>POST /upload-image\<close> without a file; an error passed to the error middleware of
  \<^verbatim>\<open>part_000\<close>. A 500 is sent exactly when an error is thrown inside the \<^verbatim>\<open>try\<close> block of a
  handler, and it carries the message of that error: as \<^verbatim>\<open>{error: msg}\<close> on \<^verbatim>\<open>/mint\<close>, as
  \<^verbatim>\<open>{success: false, error: msg}\<close> on the other routes. In particular
  \<^verbatim>\<open>GET /token/:tokenId\<close> for an id whose read fails, as for an unknown id, is answered
  500. Of a \<^verbatim>\<open>POST /evolve\<close> to \<^verbatim>\<open>src/index.js\<close> that carries no file, only that its response
  has one of these shapes. What Express itself answers (to a request that matches no
  route and, in \<^verbatim>\<open>src/index.js\<close>, which installs no error middleware, to an error of
  \<^verbatim>\<open>express.json()\<close> or of multer) is not a response of the handlers, and nothing is said
  of it.
\<close>

theorem failure_responses:
  "(index_by_express irq \<or> failure_shape (index_is_mint irq) (fst (index_app env irq s))) \<and>
   (part0_by_express prq \<or> failure_shape (part0_is_mint prq) (fst (part0_app env prq s))) \<and>
   fst (index_app env (IPostMint b) s) =
     (if nullish b then \<lparr>status = 500, body = json_error (cannot_destructure ''to'' b)\<rparr>
      else if \<not> truthy (js_prop ''to'' b) \<or> \<not> truthy (js_prop ''metadataUri'' b)
      then \<lparr>status = 400, body = json_error ''to and metadataUri are required''\<rparr>
      else (case fst (index_mintNFT env (js_prop ''to'' b) (js_prop ''metadataUri'' b) s) of
              Inl msg \<Rightarrow> \<lparr>status = 500, body = json_error msg\<rparr>
            | Inr txHash \<Rightarrow>
                \<lparr>status = 200,
                 body = JObj [(''success'', JBool True), (''txHash'', JStr txHash),
                              (''metadataUri'', js_prop ''metadataUri'' b)]\<rparr>)) \<and>
   fst (part0_app env (PPostMint b) s) =
     (if nullish b then \<lparr>status = 500, body = json_error (cannot_destructure ''to'' b)\<rparr>
      else if \<not> truthy (js_prop ''to'' b) \<or> \<not> truthy (js_prop ''metadataUri'' b)
      then \<lparr>status = 400, body = json_error ''to and metadataUri are required''\<rparr>
      else (case fst (part0_mintNFT env (js_prop ''to'' b) (js_prop ''metadataUri'' b) s) of
              Inl msg \<Rightarrow> \<lparr>status = 500, body = json_error msg\<rparr>
            | Inr result \<Rightarrow> \<lparr>status = 200, body = result\<rparr>)) \<and>
   fst (part0_app env (PPostEvolve tokenId b) s) =
     (if nullish b then \<lparr>status = 500, body = json_failure (cannot_destructure ''metadataUri'' b)\<rparr>
      else if \<not> truthy (js_prop ''metadataUri'' b)
      then \<lparr>status = 400, body = json_error ''metadataUri is required''\<rparr>
      else (case fst (evolveNFT env tokenId (js_prop ''metadataUri'' b) s) of
              Inl msg \<Rightarrow> \<lparr>status = 500, body = json_failure msg\<rparr>
            | Inr txHash \<Rightarrow>
                \<lparr>status = 200,
                 body = JObj [(''success'', JBool True), (''txHash'', JStr txHash),
                              (''tokenId'', JStr tokenId),
                              (''metadataUri'', js_prop ''metadataUri'' b)]\<rparr>)) \<and>
   fst (index_app env (IGetToken tokenId) s) =
     (case fst (getTokenURI env tokenId s) of
        Inl msg \<Rightarrow> \<lparr>status = 500, body = json_failure msg\<rparr>
      | Inr uri \<Rightarrow>
          \<lparr>status = 200,
           body = JObj [(''success'', JBool True), (''tokenId'', JStr tokenId), (''uri'', uri)]\<rparr>) \<and>
   fst (part0_app env (PGetToken tokenId) s) = fst (index_app env (IGetToken tokenId) s) \<and>
   fst (part0_app env (PPostUploadImage reqFile b) s) =
     (case reqFile of
        None \<Rightarrow> \<lparr>status = 400, body = json_error no_file_message\<rparr>
      | Some f \<Rightarrow>
          if nullish b then \<lparr>status = 500, body = json_failure (cannot_destructure ''name'' b)\<rparr>
          else
            (case pinFileToIPFS env (world s) (buffer f) (originalname f) of
               (Inl msg, w1) \<Rightarrow> \<lparr>status = 500, body = json_failure msg\<rparr>
             | (Inr imageCid, w1) \<Rightarrow>
                 (case attributes_value env (js_prop ''attributes'' b) (JArr []) of
                    Inl msg \<Rightarrow> \<lparr>status = 500, body = json_failure msg\<rparr>
                  | Inr attrs \<Rightarrow>
                      (case pinJSONToIPFS env w1
                              (uploaded_metadata (js_prop ''name'' b) (js_prop ''description'' b)
                                 imageCid attrs) of
                         (Inl msg, w2) \<Rightarrow> \<lparr>status = 500, body = json_failure msg\<rparr>
                       | (Inr metadataCid, w2) \<Rightarrow>
                           \<lparr>status = 200,
                            body = JObj [(''success'', JBool True), (''imageCid'', JStr imageCid),
                                         (''metadataCid'', JStr metadataCid),
                                         (''metadataUri'', JStr (''ipfs://'' @ metadataCid)),
                                         (''metadata'',
                                          uploaded_metadata (js_prop ''name'' b) (js_prop ''description'' b)
                                            imageCid attrs)]\<rparr>)))) \<and>
   fst (index_app env (IPostEvolve tokenId b (Some f')) s) =
     (if nullish b then \<lparr>status = 500, body = json_failure (cannot_destructure ''attributes'' b)\<rparr>
      else
        (case pinFileToIPFS env (world s) (buffer f') (originalname f') of
           (Inl msg, w1) \<Rightarrow> \<lparr>status = 500, body = json_failure msg\<rparr>
         | (Inr imageCid, w1) \<Rightarrow>
             (case attributes_value env (js_prop ''attributes'' b) (JObj []) of
                Inl msg \<Rightarrow> \<lparr>status = 500, body = json_failure msg\<rparr>
              | Inr attrs \<Rightarrow>
                  (case pinJSONToIPFS env w1 (evolved_metadata tokenId imageCid attrs) of
                     (Inl msg, w2) \<Rightarrow> \<lparr>status = 500, body = json_failure msg\<rparr>
                   | (Inr metadataCid, w2) \<Rightarrow>
                       (case fst (evolveNFT env tokenId (JStr (''ipfs://'' @ metadataCid))
                                    \<lparr>world = w2,
                                     calls = calls s @ [PinFile (buffer f') (originalname f'),
                                              PinJSON (evolved_metadata tokenId imageCid attrs)]\<rparr>) of
                          Inl msg \<Rightarrow> \<lparr>status = 500, body = json_failure msg\<rparr>
                        | Inr txHash \<Rightarrow>
                            \<lparr>status = 200,
                             body = JObj [(''success'', JBool True), (''txHash'', JStr txHash),
                                          (''imageCid'', JStr imageCid),
                                          (''metadataCid'', JStr metadataCid)]\<rparr>))))) \<and>
   fst (part0_app env (PFailedMiddleware msg) s) = \<lparr>status = 400, body = json_error msg\<rparr>"
proof (intro conjI)
  show "index_by_express irq \<or> failure_shape (index_is_mint irq) (fst (index_app env irq s))"
    by (rule shape_index_app)
  show "part0_by_express prq \<or> failure_shape (part0_is_mint prq) (fst (part0_app env prq s))"
    by (rule shape_part0_app)
  show "fst (index_app env (IPostMint b) s) =
     (if nullish b then \<lparr>status = 500, body = json_error (cannot_destructure ''to'' b)\<rparr>
      else if \<not> truthy (js_prop ''to'' b) \<or> \<not> truthy (js_prop ''metadataUri'' b)
      then \<lparr>status = 400, body = json_error ''to and metadataUri are required''\<rparr>
      else (case fst (index_mintNFT env (js_prop ''to'' b) (js_prop ''metadataUri'' b) s) of
              Inl msg \<Rightarrow> \<lparr>status = 500, body = json_error msg\<rparr>
            | Inr txHash \<Rightarrow>
                \<lparr>status = 200,
                 body = JObj [(''success'', JBool True), (''txHash'', JStr txHash),
                              (''metadataUri'', js_prop ''metadataUri'' b)]\<rparr>))"
    by (simp add: index_post_mint_answer split: prod.splits sum.splits)
  show "fst (part0_app env (PPostMint b) s) =
     (if nullish b then \<lparr>status = 500, body = json_error (cannot_destructure ''to'' b)\<rparr>
      else if \<not> truthy (js_prop ''to'' b) \<or> \<not> truthy (js_prop ''metadataUri'' b)
      then \<lparr>status = 400, body = json_error ''to and metadataUri are required''\<rparr>
      else (case fst (part0_mintNFT env (js_prop ''to'' b) (js_prop ''metadataUri'' b) s) of
              Inl msg \<Rightarrow> \<lparr>status = 500, body = json_error msg\<rparr>
            | Inr result \<Rightarrow> \<lparr>status = 200, body = result\<rparr>))"
    by (simp add: part0_post_mint_answer split: prod.splits sum.splits)
  show "fst (part0_app env (PPostEvolve tokenId b) s) =
     (if nullish b then \<lparr>status = 500, body = json_failure (cannot_destructure ''metadataUri'' b)\<rparr>
      else if \<not> truthy (js_prop ''metadataUri'' b)
      then \<lparr>status = 400, body = json_error ''metadataUri is required''\<rparr>
      else (case fst (evolveNFT env tokenId (js_prop ''metadataUri'' b) s) of
              Inl msg \<Rightarrow> \<lparr>status = 500, body = json_failure msg\<rparr>
            | Inr txHash \<Rightarrow>
                \<lparr>status = 200,
                 body = JObj [(''success'', JBool True), (''txHash'', JStr txHash),
                              (''tokenId'', JStr tokenId),
                              (''metadataUri'', js_prop ''metadataUri'' b)]\<rparr>))"
    by (simp add: part0_post_evolve_answer split: prod.splits sum.splits)
  show "fst (index_app env (IGetToken tokenId) s) =
     (case fst (getTokenURI env tokenId s) of
        Inl msg \<Rightarrow> \<lparr>status = 500, body = json_failure msg\<rparr>
      | Inr uri \<Rightarrow>
          \<lparr>status = 200,
           body = JObj [(''success'', JBool True), (''tokenId'', JStr tokenId), (''uri'', uri)]\<rparr>)"
    by (simp add: get_token_answer split: prod.splits sum.splits)
  show "fst (part0_app env (PGetToken tokenId) s) = fst (index_app env (IGetToken tokenId) s)"
    by simp
  show "fst (part0_app env (PPostUploadImage reqFile b) s) =
     (case reqFile of
        None \<Rightarrow> \<lparr>status = 400, body = json_error no_file_message\<rparr>
      | Some f \<Rightarrow>
          if nullish b then \<lparr>status = 500, body = json_failure (cannot_destructure ''name'' b)\<rparr>
          else
            (case pinFileToIPFS env (world s) (buffer f) (originalname f) of
               (Inl msg, w1) \<Rightarrow> \<lparr>status = 500, body = json_failure msg\<rparr>
             | (Inr imageCid, w1) \<Rightarrow>
                 (case attributes_value env (js_prop ''attributes'' b) (JArr []) of
                    Inl msg \<Rightarrow> \<lparr>status = 500, body = json_failure msg\<rparr>
                  | Inr attrs \<Rightarrow>
                      (case pinJSONToIPFS env w1
                              (uploaded_metadata (js_prop ''name'' b) (js_prop ''description'' b)
                                 imageCid attrs) of
                         (Inl msg, w2) \<Rightarrow> \<lparr>status = 500, body = json_failure msg\<rparr>
                       | (Inr metadataCid, w2) \<Rightarrow>
                           \<lparr>status = 200,
                            body = JObj [(''success'', JBool True), (''imageCid'', JStr imageCid),
                                         (''metadataCid'', JStr metadataCid),
                                         (''metadataUri'', JStr (''ipfs://'' @ metadataCid)),
                                         (''metadata'',
                                          uploaded_metadata (js_prop ''name'' b) (js_prop ''description'' b)
                                            imageCid attrs)]\<rparr>))))"
    by (simp add: part0_post_upload_image_answer split: option.splits prod.splits sum.splits)
  show "fst (index_app env (IPostEvolve tokenId b (Some f')) s) =
     (if nullish b then \<lparr>status = 500, body = json_failure (cannot_destructure ''attributes'' b)\<rparr>
      else
        (case pinFileToIPFS env (world s) (buffer f') (originalname f') of
           (Inl msg, w1) \<Rightarrow> \<lparr>status = 500, body = json_failure msg\<rparr>
         | (Inr imageCid, w1) \<Rightarrow>
             (case attributes_value env (js_prop ''attributes'' b) (JObj []) of
                Inl msg \<Rightarrow> \<lparr>status = 500, body = json_failure msg\<rparr>
              | Inr attrs \<Rightarrow>
                  (case pinJSONToIPFS env w1 (evolved_metadata tokenId imageCid attrs) of
                     (Inl msg, w2) \<Rightarrow> \<lparr>status = 500, body = json_failure msg\<rparr>
                   | (Inr metadataCid, w2) \<Rightarrow>
                       (case fst (evolveNFT env tokenId (JStr (''ipfs://'' @ metadataCid))
                                    \<lparr>world = w2,
                                     calls = calls s @ [PinFile (buffer f') (originalname f'),
                                              PinJSON (evolved_metadata tokenId imageCid attrs)]\<rparr>) of
                          Inl msg \<Rightarrow> \<lparr>status = 500, body = json_failure msg\<rparr>
                        | Inr txHash \<Rightarrow>
                            \<lparr>status = 200,
                             body = JObj [(''success'', JBool True), (''txHash'', JStr txHash),
                                          (''imageCid'', JStr imageCid),
                                          (''metadataCid'', JStr metadataCid)]\<rparr>)))))"
    by (simp add: index_post_evolve_answer split: prod.splits sum.splits)
  show "fst (part0_app env (PFailedMiddleware msg) s) = \<lparr>status = 400, body = json_error msg\<rparr>"
    by (simp add: part0_error_middleware_def)
qed

theorem failure_responses_witness:
  "failure_shape False (fst (index_app test_env (IGetToken ''7'') sys0)) \<and>
   failure_shape True (fst (part0_app test_env (PPostMint (JObj [])) sys0)) \<and>
   fst (index_app test_env (IPostMint JUndefined) sys0) =
     \<lparr>status = 500, body = json_error (cannot_destructure ''to'' JUndefined)\<rparr> \<and>
   fst (index_app test_env (IPostMint (JObj [])) sys0) =
     \<lparr>status = 400, body = json_error ''to and metadataUri are required''\<rparr> \<and>
   fst (part0_app test_env (PPostMint JUndefined) sys0) =
     \<lparr>status = 500, body = json_error (cannot_destructure ''to'' JUndefined)\<rparr> \<and>
   fst (part0_app test_env (PPostMint (JObj [])) sys0) =
     \<lparr>status = 400, body = json_error ''to and metadataUri are required''\<rparr> \<and>
   fst (part0_app test_env (PPostEvolve ''7'' JUndefined) sys0) =
     \<lparr>status = 500, body = json_failure (cannot_destructure ''metadataUri'' JUndefined)\<rparr> \<and>
   fst (part0_app test_env (PPostEvolve ''7'' (JObj [])) sys0) =
     \<lparr>status = 400, body = json_error ''metadataUri is required''\<rparr> \<and>
   fst (index_app test_env (IGetToken ''7'') sys0) =
     \<lparr>status = 500, body = json_failure ''nonexistent token''\<rparr> \<and>
   fst (part0_app test_env (PGetToken ''7'') sys0) =
     \<lparr>status = 500, body = json_failure ''nonexistent token''\<rparr> \<and>
   fst (part0_app test_env (PPostUploadImage None (JObj [])) sys0) =
     \<lparr>status = 400, body = json_error no_file_message\<rparr> \<and>
   fst (part0_app test_env (PPostUploadImage (Some face_png) JUndefined) sys0) =
     \<lparr>status = 500, body = json_failure (cannot_destructure ''name'' JUndefined)\<rparr> \<and>
   fst (index_app test_env (IPostEvolve ''7'' JUndefined (Some face_png)) sys0) =
     \<lparr>status = 500, body = json_failure (cannot_destructure ''attributes'' JUndefined)\<rparr> \<and>
   fst (part0_app test_env (PFailedMiddleware ''Unexpected field'') sys0) =
     \<lparr>status = 400, body = json_error ''Unexpected field''\<rparr>"
  using
    failure_responses
      [where env = test_env and s = sys0 and irq = "IGetToken ''7''" and prq = "PPostMint (JObj [])"
         and b = JUndefined and tokenId = "''7''" and reqFile = "Some face_png" and f' = face_png
         and msg = "''Unexpected field''"]
    failure_responses
      [where env = test_env and s = sys0 and irq = "IGetToken ''7''" and prq = "PPostMint (JObj [])"
         and b = "JObj []" and tokenId = "''7''" and reqFile = None and f' = face_png
         and msg = "''Unexpected field''"]
  by (simp add: getTokenURI_def tokenURI_def perform_def test_env_simps sys0_def
        del: index_app.simps part0_app.simps)

text \<open>
  Claim C7 as stated fails: the read of an id the ledger does not hold is answered
  500, not 404; and the 400 of \<^verbatim>\<open>/mint\<close> has the body \<^verbatim>\<open>{error: msg}\<close>, without a \<^verbatim>\<open>success\<close>
  field.
\<close>

theorem failure_responses_counterexample:
  "map_of (world sys0) ''7'' = None \<and>
   fst (part0_app test_env (PGetToken ''7'') sys0) =
     \<lparr>status = 500, body = JObj [(''success'', JBool False), (''error'', JStr ''nonexistent token'')]\<rparr> \<and>
   fst (index_app test_env (IGetToken ''7'') sys0) =
     \<lparr>status = 500, body = JObj [(''success'', JBool False), (''error'', JStr ''nonexistent token'')]\<rparr> \<and>
   fst (part0_app test_env (PPostMint (JObj [])) sys0) =
     \<lparr>status = 400, body = JObj [(''error'', JStr ''to and metadataUri are required'')]\<rparr> \<and>
   fst (index_app test_env (IPostMint (JObj [])) sys0) =
     \<lparr>status = 400, body = JObj [(''error'', JStr ''to and metadataUri are required'')]\<rparr> \<and>
   js_prop ''success'' (JObj [(''error'', JStr ''to and metadataUri are required'')]) = JUndefined"
  by (simp add: get_token_answer index_post_mint_answer part0_post_mint_answer getTokenURI_def
        tokenURI_def perform_def test_env_simps sys0_def json_failure_def json_error_def)

section \<open>Validation and side effects\<close>

lemma index_post_mint_400:
  "status (fst (index_post_mint env b s)) = 400 \<Longrightarrow> snd (index_post_mint env b s) = s"
  by (auto simp add: index_post_mint_answer split: if_splits prod.splits sum.splits)

lemma part0_post_mint_400:
  "status (fst (part0_post_mint env b s)) = 400 \<Longrightarrow> snd (part0_post_mint env b s) = s"
  by (auto simp add: part0_post_mint_answer split: if_splits prod.splits sum.splits)

lemma part0_post_evolve_400:
  "status (fst (part0_post_evolve env i b s)) = 400 \<Longrightarrow> snd (part0_post_evolve env i b s) = s"
  by (auto simp add: part0_post_evolve_answer split: if_splits prod.splits sum.splits)

lemma part0_post_upload_image_400:
  "status (fst (part0_post_upload_image env f b s)) = 400 \<Longrightarrow>
   snd (part0_post_upload_image env f b s) = s"
  by (auto simp add: part0_post_upload_image_answer split: option.splits if_splits prod.splits sum.splits)

lemma index_post_evolve_not_400: "status (fst (index_post_evolve env i b f s)) \<noteq> 400"
  by (cases f)
     (simp_all add: index_post_evolve_answer index_post_evolve_no_file split: prod.splits sum.splits)

lemma get_token_not_400: "status (fst (get_token env i s)) \<noteq> 400"
  by (simp add: get_token_answer split: prod.splits sum.splits)

lemma index_app_400: "status (fst (index_app env rq s)) = 400 \<Longrightarrow> snd (index_app env rq s) = s"
  by (cases rq)
     (simp_all add: index_post_mint_400 index_post_evolve_not_400 get_token_not_400 head_ping_def
        express_answers_def)

lemma part0_app_400: "status (fst (part0_app env rq s)) = 400 \<Longrightarrow> snd (part0_app env rq s) = s"
  by (cases rq)
     (simp_all add: part0_post_mint_400 part0_post_evolve_400 part0_post_upload_image_400
        get_token_not_400 head_ping_def part0_error_middleware_def express_answers_def)

lemma thrown_by_parse: "attributes_value env (js_prop k b) dflt = Inl msg \<Longrightarrow> \<not> nullish b"
  by (cases b) (simp_all add: attributes_value_def)

lemma upload_image_bad_attributes:
  "pinFileToIPFS env (world s) (buffer f) (originalname f) = (Inr imageCid, w1) \<Longrightarrow>
   attributes_value env (js_prop ''attributes'' b) (JArr []) = Inl msg \<Longrightarrow>
   part0_post_upload_image env (Some f) b s =
     (\<lparr>status = 500, body = json_failure msg\<rparr>,
      \<lparr>world = w1, calls = calls s @ [PinFile (buffer f) (originalname f)]\<rparr>)"
  by (frule thrown_by_parse) (simp add: part0_post_upload_image_answer)

lemma index_evolve_bad_attributes:
  "pinFileToIPFS env (world s) (buffer f) (originalname f) = (Inr imageCid, w1) \<Longrightarrow>
   attributes_value env (js_prop ''attributes'' b) (JObj []) = Inl msg \<Longrightarrow>
   index_post_evolve env tokenId b (Some f) s =
     (\<lparr>status = 500, body = json_failure msg\<rparr>,
      \<lparr>world = w1, calls = calls s @ [PinFile (buffer f) (originalname f)]\<rparr>)"
  by (frule thrown_by_parse) (simp add: index_post_evolve_answer)

text \<open>
  Claim C9, as amended. In both files the checks of required fields come before any
  upload or ledger call: whenever a request is answered 400, the world and the log of
  external calls are as they were. The \<^verbatim>\<open>attributes\<close> field is parsed only after the image
  has been uploaded: a request with a file whose \<^verbatim>\<open>attributes\<close> is truthy and not valid JSON
  is answered 500 after exactly one external call, the upload of the image; no metadata
  upload and no ledger call follow.
\<close>

theorem validation_and_side_effects:
  "(status (fst (index_app env irq s)) = 400 \<longrightarrow> snd (index_app env irq s) = s) \<and>
   (status (fst (part0_app env prq s)) = 400 \<longrightarrow> snd (part0_app env prq s) = s) \<and>
   (pinFileToIPFS env (world s) (buffer f) (originalname f) = (Inr imageCid, w1) \<and>
    attributes_value env (js_prop ''attributes'' reqBody) (JArr []) = Inl msg \<longrightarrow>
      part0_app env (PPostUploadImage (Some f) reqBody) s =
        (\<lparr>status = 500, body = json_failure msg\<rparr>,
         \<lparr>world = w1, calls = calls s @ [PinFile (buffer f) (originalname f)]\<rparr>)) \<and>
   (pinFileToIPFS env (world s) (buffer f) (originalname f) = (Inr imageCid, w1) \<and>
    attributes_value env (js_prop ''attributes'' reqBody) (JObj []) = Inl msg \<longrightarrow>
      index_app env (IPostEvolve tokenId reqBody (Some f)) s =
        (\<lparr>status = 500, body = json_failure msg\<rparr>,
         \<lparr>world = w1, calls = calls s @ [PinFile (buffer f) (originalname f)]\<rparr>))"
  by (simp add: index_app_400 part0_app_400 upload_image_bad_attributes index_evolve_bad_attributes)

theorem validation_and_side_effects_witness:
  "snd (index_app test_env (IPostMint (JObj [(''to'', JStr ''0xABC'')])) sys0) = sys0 \<and>
   snd (part0_app test_env (PPostEvolve ''1'' (JObj [])) sys0) = sys0 \<and>
   part0_app test_env (PPostUploadImage (Some face_png) bad_attributes) sys0 =
     (\<lparr>status = 500, body = json_failure ''Unexpected token''\<rparr>,
      \<lparr>world = [], calls = [PinFile (buffer face_png) (originalname face_png)]\<rparr>) \<and>
   index_app test_env (IPostEvolve ''1'' bad_attributes (Some face_png)) sys0 =
     (\<lparr>status = 500, body = json_failure ''Unexpected token''\<rparr>,
      \<lparr>world = [], calls = [PinFile (buffer face_png) (originalname face_png)]\<rparr>)"
proof -
  have a: "status (fst (index_app test_env (IPostMint (JObj [(''to'', JStr ''0xABC'')])) sys0)) = 400"
    by (simp add: index_post_mint_answer)
  have b: "status (fst (part0_app test_env (PPostEvolve ''1'' (JObj [])) sys0)) = 400"
    by (simp add: part0_post_evolve_answer)
  have image: "pinFileToIPFS test_env (world sys0) (buffer face_png) (originalname face_png) = (Inr ''QmImage'', [])"
    by (simp add: test_env_simps sys0_def)
  have bad: "attributes_value test_env (js_prop ''attributes'' bad_attributes) (JArr []) = Inl ''Unexpected token''"
    "attributes_value test_env (js_prop ''attributes'' bad_attributes) (JObj []) = Inl ''Unexpected token''"
    by (simp_all add: attributes_value_def test_env_simps bad_attributes_def)
  from validation_and_side_effects
    [where env = test_env and s = sys0 and irq = "IPostMint (JObj [(''to'', JStr ''0xABC'')])"
       and prq = "PPostEvolve ''1'' (JObj [])" and f = face_png and imageCid = "''QmImage''"
       and ?w1.0 = "[]" and reqBody = bad_attributes and msg = "''Unexpected token''"
       and tokenId = "''1''"]
    a b image bad
  show ?thesis
    by (simp add: sys0_def)
qed

text \<open>
  Claim C9 as stated fails: \<^verbatim>\<open>POST /upload-image\<close> with a file and an \<^verbatim>\<open>attributes\<close> field
  that is not valid JSON uploads the image to the content store, then fails.
\<close>

theorem upload_before_parse_counterexample:
  "part0_app test_env (PPostUploadImage (Some face_png) bad_attributes) sys0 =
     (\<lparr>status = 500, body = json_failure ''Unexpected token''\<rparr>,
      \<lparr>world = [], calls = [PinFile [137, 80, 78, 71] ''face.png'']\<rparr>) \<and>
   js_prop ''attributes'' bad_attributes = JStr ''{oops'' \<and>
   JSON_parse test_env (JStr ''{oops'') = Inl ''Unexpected token'' \<and>
   filter is_store_call
     (calls (snd (part0_app test_env (PPostUploadImage (Some face_png) bad_attributes) sys0))) =
     [PinFile [137, 80, 78, 71] ''face.png'']"
  by (simp add: part0_post_upload_image_answer attributes_value_def test_env_simps sys0_def
        face_png_def bad_attributes_def)

section \<open>Identical requests in flight together\<close>

lemma submissions_append: "submissions (cs @ [c]) = submissions cs + (if is_safeMint c then 1 else 0)"
  by (simp add: submissions_def)

lemma mint_step_arrived:
  "mint_step v env (Arrived b) s = (t', s') \<Longrightarrow> s' = s \<and> owed v env t' = owed v env (Arrived b)"
  by (cases "js_prop ''metadataUri'' b"; cases v)
     (auto simp: mint_submits_def truthy_prop split: if_splits)

lemma mint_step_balance:
  "mint_step v env t s = (t', s') \<Longrightarrow>
   submissions (calls s') + owed v env t' = submissions (calls s) + owed v env t"
proof (cases t)
  case (Arrived b)
  assume "mint_step v env t s = (t', s')"
  with Arrived mint_step_arrived [of v env b s t' s'] show ?thesis
    by simp
next
  case (AwaitSafeMint to uri h)
  assume "mint_step v env t s = (t', s')"
  with AwaitSafeMint show ?thesis
    by (auto simp: safeMint_def perform_def submissions_append split: prod.splits sum.splits)
next
  case (AwaitWait tx uri)
  assume "mint_step v env t s = (t', s')"
  with AwaitWait show ?thesis
    by (cases v)
       (auto simp: wait_def perform_def submissions_append parse_tokenId_def ok_def throw_def
          split: prod.splits sum.splits option.splits)
next
  case (Responded r)
  assume "mint_step v env t s = (t', s')"
  with Responded show ?thesis by auto
qed

lemma pending_update:
  "i < length ts \<Longrightarrow> pending v env (ts[i := t']) + owed v env (ts ! i) = pending v env ts + owed v env t'"
proof -
  assume i: "i < length ts"
  then have "owed v env (ts ! i) \<in> set (map (owed v env) ts)"
    by simp
  then have "owed v env (ts ! i) \<le> sum_list (map (owed v env) ts)"
    by (rule member_le_sum_list) simp_all
  with i show ?thesis
    by (simp add: pending_def map_update sum_list_update)
qed

lemma resume_balance:
  "resume v env i (ts, s) = (ts', s') \<Longrightarrow>
   submissions (calls s') + pending v env ts' = submissions (calls s) + pending v env ts"
proof (cases "i < length ts")
  case False
  assume "resume v env i (ts, s) = (ts', s')"
  with False show ?thesis by (simp add: resume_def)
next
  case True
  assume r: "resume v env i (ts, s) = (ts', s')"
  obtain t' s'' where st: "mint_step v env (ts ! i) s = (t', s'')"
    by (cases "mint_step v env (ts ! i) s")
  with r True have eq: "ts' = ts[i := t']" "s' = s''"
    by (simp_all add: resume_def)
  from mint_step_balance [OF st] pending_update [OF True, of v env t'] eq
  show ?thesis by simp
qed

lemma run_balance:
  "run v env schedule (ts, s) = (ts', s') \<Longrightarrow>
   submissions (calls s') + pending v env ts' = submissions (calls s) + pending v env ts"
proof (induction schedule arbitrary: ts s)
  case Nil
  then show ?case by (simp add: run_def)
next
  case (Cons i schedule)
  obtain ts1 sa where one: "resume v env i (ts, s) = (ts1, sa)"
    by (cases "resume v env i (ts, s)")
  with Cons.prems have "run v env schedule (ts1, sa) = (ts', s')"
    by (simp add: run_def)
  from Cons.IH [OF this] resume_balance [OF one] show ?case by simp
qed

lemma run_three: "run v env [0, 0, 0] ([t], s) =
  (case mint_step v env t s of (t1, sa) \<Rightarrow>
     case mint_step v env t1 sa of (t2, sb) \<Rightarrow>
       case mint_step v env t2 sb of (t3, sc) \<Rightarrow> ([t3], sc))"
  by (simp add: run_def resume_def split: prod.splits)

lemma activation_alone:
  "run v env [0, 0, 0] ([Arrived b], s) =
     ([Responded (fst (post_mint v env b s))], snd (post_mint v env b s))"
proof (cases "nullish b \<or> \<not> truthy (js_prop ''to'' b) \<or> \<not> truthy (js_prop ''metadataUri'' b)")
  case True
  then show ?thesis
    by (cases v) (auto simp: run_three post_mint_def index_post_mint_answer part0_post_mint_answer)
next
  case valid: False
  show ?thesis
  proof (cases v)
    case Index
    with valid show ?thesis
      by (cases "js_prop ''metadataUri'' b")
         (auto simp: run_three post_mint_def index_post_mint_answer index_mintNFT_def run_defs
            split: prod.splits sum.splits)
  next
    case Part0
    with valid show ?thesis
      by (cases "js_prop ''metadataUri'' b")
         (auto simp: run_three post_mint_def part0_post_mint_answer part0_mintNFT_def run_defs
            split: prod.splits sum.splits option.splits)
  qed
qed

lemma pending_answered: "list_all answered ts \<Longrightarrow> pending v env ts = 0"
proof (induction ts)
  case Nil
  then show ?case by (simp add: pending_def)
next
  case (Cons t ts)
  then show ?case by (cases t) (simp_all add: pending_def)
qed

lemma pending_arrived:
  "pending v env (map Arrived bodies) = length (filter (mint_submits v env) bodies)"
  by (induction bodies) (simp_all add: pending_def)

text \<open>
  Claim C6, as amended. Neither file keeps a registry of requests in flight. A
  \<^verbatim>\<open>POST /mint\<close> request makes a ledger submission exactly when \<open>to\<close> is truthy and
  \<open>metadataUri\<close> is a non-empty string in its body (and, in \<^verbatim>\<open>part_000\<close>, \<^verbatim>\<open>contract\<close> is
  truthy), and then it makes one of its own, however the requests interleave; any other
  request is answered without a submission, also one whose \<open>metadataUri\<close> is truthy and
  not a string, which passes the handler's test and fails in the hashing. Along any
  schedule the submissions made and the submissions still owed add up to the same
  number; so, once all requests are answered, as many submissions have been made as
  there were requests of that form, and \<open>k\<close> identical ones have made \<open>k\<close>. (One activation
  resumed three times is the handler: this model and the handler agree.)
\<close>

theorem every_mint_request_submits:
  "(run v env schedule (ts, s) = (ts', s') \<longrightarrow>
      submissions (calls s') + pending v env ts' = submissions (calls s) + pending v env ts) \<and>
   (run v env schedule (map Arrived bodies, s) = (ts'', s'') \<and> list_all answered ts'' \<longrightarrow>
      submissions (calls s'') = submissions (calls s) + length (filter (mint_submits v env) bodies)) \<and>
   (run v env schedule (replicate k (Arrived reqBody), s) = (ts3, s3) \<and> list_all answered ts3 \<longrightarrow>
      submissions (calls s3) = submissions (calls s) + (if mint_submits v env reqBody then k else 0)) \<and>
   run v env [0, 0, 0] ([Arrived reqBody], s) =
     ([Responded (fst (post_mint v env reqBody s))], snd (post_mint v env reqBody s))"
proof (intro conjI impI)
  assume "run v env schedule (ts, s) = (ts', s')"
  then show "submissions (calls s') + pending v env ts' = submissions (calls s) + pending v env ts"
    by (rule run_balance)
next
  assume a: "run v env schedule (map Arrived bodies, s) = (ts'', s'') \<and> list_all answered ts''"
  then have "run v env schedule (map Arrived bodies, s) = (ts'', s'')"
    by simp
  then have "submissions (calls s'') + pending v env ts'' =
      submissions (calls s) + pending v env (map Arrived bodies)"
    by (rule run_balance)
  with a show "submissions (calls s'') =
      submissions (calls s) + length (filter (mint_submits v env) bodies)"
    by (simp add: pending_answered pending_arrived)
next
  assume a: "run v env schedule (replicate k (Arrived reqBody), s) = (ts3, s3) \<and> list_all answered ts3"
  then have "run v env schedule (map Arrived (replicate k reqBody), s) = (ts3, s3)"
    by simp
  then have "submissions (calls s3) + pending v env ts3 =
      submissions (calls s) + pending v env (map Arrived (replicate k reqBody))"
    by (rule run_balance)
  with a show "submissions (calls s3) =
      submissions (calls s) + (if mint_submits v env reqBody then k else 0)"
    by (simp add: pending_answered pending_arrived del: map_replicate)
next
  show "run v env [0, 0, 0] ([Arrived reqBody], s) =
     ([Responded (fst (post_mint v env reqBody s))], snd (post_mint v env reqBody s))"
    by (rule activation_alone)
qed

lemma run_twice:
  "run Part0 test_env [0, 0, 1, 1, 0, 1] ([Arrived mint_body, Arrived mint_body], sys0) =
     ([Responded \<lparr>status = 200,
                  body = JObj [(''success'', JBool True), (''txHash'', JStr ''0xT1''),
                               (''tokenId'', JStr ''1''), (''metadataUri'', JStr ''ipfs://Qm123'')]\<rparr>,
       Responded \<lparr>status = 200,
                  body = JObj [(''success'', JBool True), (''txHash'', JStr ''0xT2''),
                               (''tokenId'', JStr ''2''), (''metadataUri'', JStr ''ipfs://Qm123'')]\<rparr>],
      \<lparr>world = [(''1'', ''ipfs://Qm123'', hashBinder test_env ''ipfs://Qm123''),
                (''2'', ''ipfs://Qm123'', hashBinder test_env ''ipfs://Qm123'')],
       calls = [SafeMint (JStr ''0xABC'') ''ipfs://Qm123'' (hashBinder test_env ''ipfs://Qm123''),
                SafeMint (JStr ''0xABC'') ''ipfs://Qm123'' (hashBinder test_env ''ipfs://Qm123''),
                TxWait (Tx ''0xT1''), TxWait (Tx ''0xT2'')]\<rparr>)"
  by (simp add: run_def resume_def safeMint_def wait_def perform_def mint_body_def
        parse_tokenId_def ok_def throw_def eval_simps)

lemma run_numeric:
  "run Index test_env [0] ([Arrived numeric_body], sys0) =
     ([Responded \<lparr>status = 500, body = json_error ''invalid string value''\<rparr>], sys0)"
  by (simp add: run_def resume_def numeric_body_def test_env_simps)

theorem every_mint_request_submits_witness:
  "submissions (calls (snd (run Part0 test_env [0, 0, 1, 1, 0, 1]
     (map Arrived [mint_body, mint_body], sys0)))) = submissions (calls sys0) + 2 \<and>
   list_all answered (fst (run Part0 test_env [0, 0, 1, 1, 0, 1]
     (map Arrived [mint_body, mint_body], sys0))) \<and>
   truthy (js_prop ''to'' numeric_body) \<and> truthy (js_prop ''metadataUri'' numeric_body) \<and>
   list_all answered (fst (run Index test_env [0] (replicate 1 (Arrived numeric_body), sys0))) \<and>
   submissions (calls (snd (run Index test_env [0] (replicate 1 (Arrived numeric_body), sys0)))) =
     submissions (calls sys0)"
proof -
  let ?ts = "[Responded \<lparr>status = 200,
                  body = JObj [(''success'', JBool True), (''txHash'', JStr ''0xT1''),
                               (''tokenId'', JStr ''1''), (''metadataUri'', JStr ''ipfs://Qm123'')]\<rparr>,
       Responded \<lparr>status = 200,
                  body = JObj [(''success'', JBool True), (''txHash'', JStr ''0xT2''),
                               (''tokenId'', JStr ''2''), (''metadataUri'', JStr ''ipfs://Qm123'')]\<rparr>]"
  let ?s = "\<lparr>world = [(''1'', ''ipfs://Qm123'', hashBinder test_env ''ipfs://Qm123''),
                (''2'', ''ipfs://Qm123'', hashBinder test_env ''ipfs://Qm123'')],
       calls = [SafeMint (JStr ''0xABC'') ''ipfs://Qm123'' (hashBinder test_env ''ipfs://Qm123''),
                SafeMint (JStr ''0xABC'') ''ipfs://Qm123'' (hashBinder test_env ''ipfs://Qm123''),
                TxWait (Tx ''0xT1''), TxWait (Tx ''0xT2'')]\<rparr>"
  let ?n = "[Responded \<lparr>status = 500, body = json_error ''invalid string value''\<rparr>]"
  have ran: "run Part0 test_env [0, 0, 1, 1, 0, 1] (map Arrived [mint_body, mint_body], sys0) = (?ts, ?s)"
    using run_twice by simp
  have ran': "run Index test_env [0] (replicate 1 (Arrived numeric_body), sys0) = (?n, sys0)"
    using run_numeric by simp
  have given: "list_all answered ?ts" "list_all answered ?n"
    "mint_submits Part0 test_env mint_body" "\<not> mint_submits Index test_env numeric_body"
    "truthy (js_prop ''to'' numeric_body)" "truthy (js_prop ''metadataUri'' numeric_body)"
    by (simp_all add: mint_submits_def mint_body_def numeric_body_def test_env_simps)
  from every_mint_request_submits
    [where v = Part0 and env = test_env and schedule = "[0, 0, 1, 1, 0, 1]" and s = sys0
       and ts = "map Arrived [mint_body, mint_body]" and ts' = ?ts and s' = ?s
       and bodies = "[mint_body, mint_body]" and ts'' = ?ts and s'' = ?s
       and k = 1 and reqBody = numeric_body and ?ts3.0 = "[]" and ?s3.0 = sys0]
    ran given
  have two: "submissions (calls ?s) = submissions (calls sys0) + 2"
    by simp
  from every_mint_request_submits
    [where v = Index and env = test_env and schedule = "[0]" and s = sys0
       and ts = "[]" and ts' = "[]" and s' = sys0
       and bodies = "[]" and ts'' = "[]" and s'' = sys0
       and k = 1 and reqBody = numeric_body and ?ts3.0 = ?n and ?s3.0 = sys0]
    ran' given
  have none: "submissions (calls (snd (run Index test_env [0] (replicate 1 (Arrived numeric_body), sys0)))) =
      submissions (calls sys0)"
    by simp
  from ran ran' given two none show ?thesis
    by simp
qed

text \<open>
  Claim C6 as stated fails: the second of two identical requests arrives when the
  first has submitted and waits for its receipt; it submits again, and the two requests
  are answered with two record identifiers.
\<close>

theorem duplicate_submission_counterexample:
  "fst (run Part0 test_env [0, 0] ([Arrived mint_body, Arrived mint_body], sys0)) =
     [AwaitWait (Tx ''0xT1'') ''ipfs://Qm123'', Arrived mint_body] \<and>
   run Part0 test_env [0, 0, 1, 1, 0, 1] ([Arrived mint_body, Arrived mint_body], sys0) =
     ([Responded \<lparr>status = 200,
                  body = JObj [(''success'', JBool True), (''txHash'', JStr ''0xT1''),
                               (''tokenId'', JStr ''1''), (''metadataUri'', JStr ''ipfs://Qm123'')]\<rparr>,
       Responded \<lparr>status = 200,
                  body = JObj [(''success'', JBool True), (''txHash'', JStr ''0xT2''),
                               (''tokenId'', JStr ''2''), (''metadataUri'', JStr ''ipfs://Qm123'')]\<rparr>],
      \<lparr>world = [(''1'', ''ipfs://Qm123'', hashBinder test_env ''ipfs://Qm123''),
                (''2'', ''ipfs://Qm123'', hashBinder test_env ''ipfs://Qm123'')],
       calls = [SafeMint (JStr ''0xABC'') ''ipfs://Qm123'' (hashBinder test_env ''ipfs://Qm123''),
                SafeMint (JStr ''0xABC'') ''ipfs://Qm123'' (hashBinder test_env ''ipfs://Qm123''),
                TxWait (Tx ''0xT1''), TxWait (Tx ''0xT2'')]\<rparr>)"
proof -
  have "fst (run Part0 test_env [0, 0] ([Arrived mint_body, Arrived mint_body], sys0)) =
     [AwaitWait (Tx ''0xT1'') ''ipfs://Qm123'', Arrived mint_body]"
    by (simp add: run_def resume_def safeMint_def perform_def mint_body_def eval_simps)
  with run_twice show ?thesis by blast
qed

end
